theory Spec2Isabelle
  imports Complex_Main
begin

section \<open>Data model\<close>

text \<open>
  A shallow embedding of \<^verbatim>\<open>selfdrive/controls/lib/lateral_planner.py\<close> (class
  \<^verbatim>\<open>LateralPlanner\<close>) and of the turn-signal decoding of
  \<^verbatim>\<open>selfdrive/car/gm/carstate.py\<close>.

  Python floats are modelled as real numbers, so every statement about the timers and the
  blend factor is a statement about exact arithmetic. Where the source tests a float for
  not-a-number (the optimizer's curvature samples and its cost), the value is a \<open>pyfloat\<close>,
  a real number or \<open>NaN\<close>. Exceptions are values: a phase of the tick returns
  \<open>Inl\<close> of the exception it raises or \<open>Inr\<close> of the planner it leaves.
\<close>

datatype pyfloat = NaN | Num real

text \<open>\<^verbatim>\<open>math.isnan(x)\<close>.\<close>

fun isnan :: "pyfloat \<Rightarrow> bool" where
  "isnan NaN = True"
| "isnan (Num _) = False"

text \<open>\<^verbatim>\<open>x > c\<close> for a float \<open>x\<close>: every comparison with not-a-number is false.\<close>

fun pyfloat_gt :: "pyfloat \<Rightarrow> real \<Rightarrow> bool" where
  "pyfloat_gt NaN c = False"
| "pyfloat_gt (Num v) c = (c < v)"

text \<open>The exceptions the modelled code can raise.\<close>

datatype error = AttributeError | ValueError | AssertionError | ZeroDivisionError

text \<open>\<^verbatim>\<open>log.LateralPlan.LaneChangeState\<close>, \<^verbatim>\<open>LaneChangeDirection\<close> and \<^verbatim>\<open>Desire\<close>.\<close>

datatype LaneChangeState = off | preLaneChange | laneChangeStarting | laneChangeFinishing

datatype LaneChangeDirection = none | left | right

datatype Desire = Desire_none | laneChangeLeft | laneChangeRight

text \<open>
  The constants the planner imports (\<^verbatim>\<open>DT_MDL\<close> from \<^verbatim>\<open>common.realtime\<close>,
  \<^verbatim>\<open>TRAJECTORY_SIZE\<close> from the lane planner, \<^verbatim>\<open>MPC_N\<close> from the drive helpers) and
  the three values \<^verbatim>\<open>__init__\<close> reads from the kegman configuration and never writes
  again. None of the imported modules is part of the sources at hand, so the constants are
  parameters of the model.
\<close>

record Config =
  DT_MDL :: real
  TRAJECTORY_SIZE :: nat
  MPC_N :: nat
  alc_nudge_less :: bool
  alc_min_speed :: real
  alc_timer :: real

text \<open>The fields of \<^verbatim>\<open>sm['carState']\<close> that \<^verbatim>\<open>update\<close> reads.\<close>

record CarState_msg =
  vEgo :: real
  steeringAngle :: real
  steeringTorque :: real
  steeringPressed :: bool
  leftBlinker :: bool
  rightBlinker :: bool
  leftBlindspot :: bool
  rightBlindspot :: bool

text \<open>The \<^verbatim>\<open>position\<close> and \<^verbatim>\<open>orientation\<close> members of \<^verbatim>\<open>sm['modelV2']\<close>.\<close>

record XYZTData =
  xyzt_x :: "real list"
  xyzt_y :: "real list"
  xyzt_z :: "real list"
  xyzt_t :: "real list"

record ModelDataV2 =
  position :: XYZTData
  orientation :: XYZTData

text \<open>The message snapshot \<^verbatim>\<open>sm\<close> of one tick.\<close>

record SubMaster =
  carState :: CarState_msg
  active :: bool
  angleOffset :: real
  modelV2 :: ModelDataV2

text \<open>
  What the external collaborators return during one tick. The tuning store
  (\<^verbatim>\<open>ntune_get\<close>), the vehicle model \<^verbatim>\<open>VM\<close>, the lane planner \<^verbatim>\<open>LP\<close>, the
  optimizer \<^verbatim>\<open>libmpc\<close>, \<^verbatim>\<open>common.numpy_fast.interp\<close> and the clock are not part of
  the sources at hand; the model takes the values they hand back as inputs of the tick and
  assumes that the calls return.
  \<^item> \<open>ntune_steerRateCost\<close>, \<open>ntune_steerActuatorDelay\<close>: \<^verbatim>\<open>ntune_get\<close> of the two keys;
  \<^item> \<open>VM_sR_entry\<close>: \<^verbatim>\<open>VM.sR\<close> when \<^verbatim>\<open>update\<close> is entered, \<open>VM_sR\<close>: \<^verbatim>\<open>VM.sR\<close> after
    \<^verbatim>\<open>VM.update_params\<close>, \<open>curvature_factor\<close>: \<^verbatim>\<open>VM.curvature_factor(v_ego)\<close>;
  \<^item> \<open>l_lane_change_prob\<close>, \<open>r_lane_change_prob\<close>: the lane planner's fields after
    \<^verbatim>\<open>LP.parse_model\<close>;
  \<^item> \<open>mpc_cost\<close>, \<open>mpc_curvature\<close>: \<^verbatim>\<open>mpc_solution[0].cost\<close> and
    \<^verbatim>\<open>mpc_solution.curvature\<close> after \<^verbatim>\<open>run_mpc\<close>;
  \<^item> \<open>interp_curvature\<close>: the value of
    \<^verbatim>\<open>interp(DT_MDL, self.t_idxs[:MPC_N+1], self.mpc_solution.curvature)\<close>;
  \<^item> \<open>sec_since_boot\<close>: the clock reading of line 288.
\<close>

record External =
  ntune_steerRateCost :: real
  ntune_steerActuatorDelay :: real
  VM_sR_entry :: real
  VM_sR :: real
  curvature_factor :: real
  l_lane_change_prob :: real
  r_lane_change_prob :: real
  mpc_cost :: pyfloat
  mpc_curvature :: "pyfloat list"
  interp_curvature :: pyfloat
  sec_since_boot :: real

text \<open>
  The planner object. \<open>pre_lane_change_timer\<close> is an attribute that \<^verbatim>\<open>__init__\<close> does
  not create: \<open>None\<close> stands for the missing attribute. Two fields record effects on the
  collaborators: \<open>libmpc_init_calls\<close> counts the calls of \<^verbatim>\<open>libmpc.init\<close> (the
  reinitialisation of the optimizer's costs) and \<open>cloudlog\<close> lists the clock readings at
  which \<^verbatim>\<open>cloudlog.warning\<close> was called, newest first. \<open>cur_state_curvature\<close> is
  \<^verbatim>\<open>self.cur_state.curvature\<close>; the other three members of \<^verbatim>\<open>cur_state\<close> are zero
  between two ticks and are left out.
\<close>

record LateralPlanner =
  last_cloudlog_t :: real
  steer_rate_cost_prev :: real
  steer_actuator_delay_prev :: real
  solution_invalid_cnt :: int
  lane_change_state :: LaneChangeState
  lane_change_direction :: LaneChangeDirection
  lane_change_timer :: real
  lane_change_ll_prob :: real
  prev_one_blinker :: bool
  desire :: Desire
  pre_lane_change_timer :: "real option"
  path_xyz :: "(real \<times> real \<times> real) list"
  plan_yaw :: "real list"
  t_idxs :: "real list"
  mpc_frame :: int
  cur_state_curvature :: pyfloat
  libmpc_init_calls :: nat
  cloudlog :: "real list"

section \<open>Turn-signal decoding (carstate.py)\<close>

text \<open>
  The part of \<^verbatim>\<open>CarState.update\<close> that fills the driver-input fields: lines 61, 62, 72
  and 73. \<open>TurnSignals\<close> and \<open>LKADriverAppldTrq\<close> are the decoded bus signals,
  \<^verbatim>\<open>STEER_THRESHOLD\<close> is imported and therefore a parameter.
\<close>

record pt_cp_vl =
  TurnSignals :: int
  LKADriverAppldTrq :: real

record CarState_ret =
  ret_steeringTorque :: real
  ret_steeringPressed :: bool
  ret_leftBlinker :: bool
  ret_rightBlinker :: bool

definition CarState_update :: "real \<Rightarrow> pt_cp_vl \<Rightarrow> CarState_ret" where
  "CarState_update STEER_THRESHOLD vl =
     \<lparr> ret_steeringTorque = LKADriverAppldTrq vl,
       ret_steeringPressed = (STEER_THRESHOLD < \<bar>LKADriverAppldTrq vl\<bar>),
       ret_leftBlinker = (TurnSignals vl = 1),
       ret_rightBlinker = (TurnSignals vl = 2) \<rparr>"

section \<open>The planner\<close>

subsection \<open>Construction\<close>

text \<open>
  \<^verbatim>\<open>__init__\<close> and \<^verbatim>\<open>setup_mpc\<close>. The two arguments are the values \<^verbatim>\<open>ntune_get\<close>
  returns for the steer-rate cost and the actuator delay. \<^verbatim>\<open>setup_mpc\<close> calls
  \<^verbatim>\<open>libmpc.init\<close> once. No line assigns \<^verbatim>\<open>self.pre_lane_change_timer\<close>.
\<close>

definition LateralPlanner_init :: "Config \<Rightarrow> real \<Rightarrow> real \<Rightarrow> LateralPlanner" where
  "LateralPlanner_init cfg rate_cost delay =
     \<lparr> last_cloudlog_t = 0,
       steer_rate_cost_prev = rate_cost,
       steer_actuator_delay_prev = delay,
       solution_invalid_cnt = 0,
       lane_change_state = off,
       lane_change_direction = none,
       lane_change_timer = 0,
       lane_change_ll_prob = 1,
       prev_one_blinker = False,
       desire = Desire_none,
       pre_lane_change_timer = None,
       path_xyz = replicate (TRAJECTORY_SIZE cfg) (0, 0, 0),
       plan_yaw = replicate (TRAJECTORY_SIZE cfg) 0,
       t_idxs = map real [0 ..< TRAJECTORY_SIZE cfg],
       mpc_frame = 0,
       cur_state_curvature = Num 0,
       libmpc_init_calls = 1,
       cloudlog = [] \<rparr>"

subsection \<open>The phases of \<^verbatim>\<open>update\<close>\<close>

text \<open>
  \<^verbatim>\<open>math.radians\<close> multiplies by \<^verbatim>\<open>math.pi / 180\<close>, where \<^verbatim>\<open>math.pi\<close> is a float
  constant: the number Python prints for it.
\<close>

definition math_pi :: real where
  "math_pi = 3.141592653589793"

definition radians :: "real \<Rightarrow> real" where
  "radians d = d * (math_pi / 180)"

text \<open>Division of Python floats: a zero divisor raises \<^verbatim>\<open>ZeroDivisionError\<close>.\<close>

definition py_div :: "real \<Rightarrow> real \<Rightarrow> error + real" where
  "py_div a b = (if b = 0 then Inl ZeroDivisionError else Inr (a / b))"

text \<open>
  Lines 115 to 122: the cached tuning values follow the tuning store; a changed actuator
  delay reinitialises the optimizer and reseeds its curvature from the steering angle.
\<close>

definition update_tuning :: "SubMaster \<Rightarrow> External \<Rightarrow> LateralPlanner \<Rightarrow> error + LateralPlanner" where
  "update_tuning sm ext s =
     (let s1 = (if steer_rate_cost_prev s \<noteq> ntune_steerRateCost ext
                then s\<lparr>steer_rate_cost_prev := ntune_steerRateCost ext\<rparr> else s)
      in if steer_actuator_delay_prev s1 \<noteq> ntune_steerActuatorDelay ext
         then (case py_div (radians (steeringAngle (carState sm) - angleOffset sm))
                           (VM_sR_entry ext) of
                 Inl e \<Rightarrow> Inl e
               | Inr c \<Rightarrow>
                   Inr (s1\<lparr>steer_actuator_delay_prev := ntune_steerActuatorDelay ext,
                           libmpc_init_calls := libmpc_init_calls s1 + 1,
                           cur_state_curvature := Num c\<rparr>))
         else Inr s1)"

text \<open>
  Lines 143 to 151: the frame counter wraps at 500. The configuration re-read on the wrap
  writes only \<^verbatim>\<open>self.sR\<close>, \<^verbatim>\<open>self.sRBP\<close> and \<^verbatim>\<open>self.sR_time\<close>, which nothing reads.
\<close>

definition update_mpc_frame :: "LateralPlanner \<Rightarrow> LateralPlanner" where
  "update_mpc_frame s =
     (let f = mpc_frame s + 1 in s\<lparr>mpc_frame := (if f mod 500 = 0 then 0 else f)\<rparr>)"

text \<open>Line 153.\<close>

definition measured_curvature :: "SubMaster \<Rightarrow> External \<Rightarrow> error + real" where
  "measured_curvature sm ext =
     py_div (- curvature_factor ext * radians (steeringAngle (carState sm) - angleOffset sm))
            (VM_sR ext)"

text \<open>
  \<^verbatim>\<open>np.column_stack\<close> of three one-dimensional arrays: a matrix with one row per index,
  and a \<^verbatim>\<open>ValueError\<close> when the lengths differ.
\<close>

definition column_stack :: "real list \<Rightarrow> real list \<Rightarrow> real list \<Rightarrow> error + (real \<times> real \<times> real) list" where
  "column_stack a b c =
     (if length a = length b \<and> length b = length c then Inr (zip a (zip b c))
      else Inl ValueError)"

text \<open>
  Lines 156 to 161: a forecast is stored only when its position and orientation have the
  expected length.
\<close>

definition accept_forecast :: "Config \<Rightarrow> ModelDataV2 \<Rightarrow> LateralPlanner \<Rightarrow> error + LateralPlanner" where
  "accept_forecast cfg md s =
     (if length (xyzt_x (position md)) = TRAJECTORY_SIZE cfg
         \<and> length (xyzt_x (orientation md)) = TRAJECTORY_SIZE cfg
      then (case column_stack (xyzt_x (position md)) (xyzt_y (position md)) (xyzt_z (position md)) of
              Inl e \<Rightarrow> Inl e
            | Inr p \<Rightarrow> Inr (s\<lparr>path_xyz := p,
                               t_idxs := xyzt_t (position md),
                               plan_yaw := xyzt_z (orientation md)\<rparr>))
      else Inr s)"

text \<open>The table \<^verbatim>\<open>DESIRES\<close>.\<close>

fun DESIRES :: "LaneChangeDirection \<Rightarrow> LaneChangeState \<Rightarrow> Desire" where
  "DESIRES none _ = Desire_none"
| "DESIRES left off = Desire_none"
| "DESIRES left preLaneChange = Desire_none"
| "DESIRES left laneChangeStarting = laneChangeLeft"
| "DESIRES left laneChangeFinishing = laneChangeLeft"
| "DESIRES right off = Desire_none"
| "DESIRES right preLaneChange = Desire_none"
| "DESIRES right laneChangeStarting = laneChangeRight"
| "DESIRES right laneChangeFinishing = laneChangeRight"

text \<open>
  Lines 172 to 179: the engaged blinker sets the direction and advances the pre-lane-change
  timer. \<^verbatim>\<open>+=\<close> reads the attribute first, so it raises \<^verbatim>\<open>AttributeError\<close> while
  the attribute does not exist.
\<close>

definition blinker_step :: "Config \<Rightarrow> CarState_msg \<Rightarrow> LateralPlanner \<Rightarrow> error + LateralPlanner" where
  "blinker_step cfg cs s =
     (if leftBlinker cs then
        (case pre_lane_change_timer s of
           None \<Rightarrow> Inl AttributeError
         | Some p \<Rightarrow> Inr (s\<lparr>lane_change_direction := left,
                            pre_lane_change_timer := Some (p + DT_MDL cfg)\<rparr>))
      else if rightBlinker cs then
        (case pre_lane_change_timer s of
           None \<Rightarrow> Inl AttributeError
         | Some p \<Rightarrow> Inr (s\<lparr>lane_change_direction := right,
                            pre_lane_change_timer := Some (p + DT_MDL cfg)\<rparr>))
      else Inr (s\<lparr>pre_lane_change_timer := Some 0\<rparr>))"

text \<open>
  Lines 181 to 188, with \<open>p\<close> the value of \<^verbatim>\<open>self.pre_lane_change_timer\<close>. The test of
  line 185 reads the local variable \<^verbatim>\<open>lane_change_direction\<close> that line 164 sets to
  \<^verbatim>\<open>LaneChangeDirection.none\<close> and that nothing assigns afterwards; it is the first
  argument here.
\<close>

definition torque_applied :: "LaneChangeDirection \<Rightarrow> Config \<Rightarrow> CarState_msg \<Rightarrow> real \<Rightarrow> bool" where
  "torque_applied lane_change_direction_local cfg cs p =
     (if alc_nudge_less cfg \<and> alc_timer cfg < p then True
      else if lane_change_direction_local = left
           then 0 < steeringTorque cs \<and> steeringPressed cs
           else steeringTorque cs < 0 \<and> steeringPressed cs)"

text \<open>Lines 191 and 192.\<close>

definition blindspot_detected :: "CarState_msg \<Rightarrow> LateralPlanner \<Rightarrow> bool" where
  "blindspot_detected cs s =
     ((leftBlindspot cs \<and> lane_change_direction s = left)
      \<or> (rightBlindspot cs \<and> lane_change_direction s = right))"

text \<open>
  Lines 194 to 224: the transitions of the lane-change state machine. The arguments are
  \<^verbatim>\<open>one_blinker\<close>, \<^verbatim>\<open>below_lane_change_speed\<close>, \<^verbatim>\<open>torque_applied\<close> and
  \<^verbatim>\<open>blindspot_detected\<close>.
\<close>

definition state_transitions ::
  "Config \<Rightarrow> External \<Rightarrow> bool \<Rightarrow> bool \<Rightarrow> bool \<Rightarrow> bool \<Rightarrow> LateralPlanner \<Rightarrow> LateralPlanner" where
  "state_transitions cfg ext one_blinker below_lane_change_speed torque blindspot s =
     (let lane_change_prob = l_lane_change_prob ext + r_lane_change_prob ext in
      if lane_change_state s = off \<and> one_blinker \<and> \<not> prev_one_blinker s
         \<and> \<not> below_lane_change_speed
      then s\<lparr>lane_change_state := preLaneChange, lane_change_ll_prob := 1\<rparr>
      else if lane_change_state s = preLaneChange
      then (if \<not> one_blinker \<or> below_lane_change_speed then s\<lparr>lane_change_state := off\<rparr>
            else if torque \<and> \<not> blindspot then s\<lparr>lane_change_state := laneChangeStarting\<rparr>
            else s)
      else if lane_change_state s = laneChangeStarting
      then (let ll = max (lane_change_ll_prob s - 2 * DT_MDL cfg) 0 in
            if lane_change_prob < 0.02 \<and> ll < 0.01
            then s\<lparr>lane_change_ll_prob := ll, lane_change_state := laneChangeFinishing\<rparr>
            else s\<lparr>lane_change_ll_prob := ll\<rparr>)
      else if lane_change_state s = laneChangeFinishing
      then (let ll = min (lane_change_ll_prob s + DT_MDL cfg) 1 in
            if one_blinker \<and> 0.99 < ll
            then s\<lparr>lane_change_ll_prob := ll, lane_change_state := preLaneChange\<rparr>
            else if 0.99 < ll
            then s\<lparr>lane_change_ll_prob := ll, lane_change_state := off\<rparr>
            else s\<lparr>lane_change_ll_prob := ll\<rparr>)
      else s)"

text \<open>Lines 226 to 233: the lane-change timer, the blinker memory and the desire.\<close>

definition timer_and_desire :: "Config \<Rightarrow> bool \<Rightarrow> LateralPlanner \<Rightarrow> LateralPlanner" where
  "timer_and_desire cfg one_blinker s =
     (let s1 = (if lane_change_state s = off \<or> lane_change_state s = preLaneChange
                then s\<lparr>lane_change_timer := 0\<rparr>
                else s\<lparr>lane_change_timer := lane_change_timer s + DT_MDL cfg\<rparr>)
      in s1\<lparr>prev_one_blinker := one_blinker,
             desire := DESIRES (lane_change_direction s1) (lane_change_state s1)\<rparr>)"

text \<open>Lines 163 to 233: the lane-change logic of one tick.\<close>

definition lane_change :: "Config \<Rightarrow> SubMaster \<Rightarrow> External \<Rightarrow> LateralPlanner \<Rightarrow> error + LateralPlanner" where
  "lane_change cfg sm ext s =
     (let cs = carState sm;
          lane_change_direction_local = none;
          one_blinker = (leftBlinker cs \<noteq> rightBlinker cs);
          below_lane_change_speed = (vEgo cs < alc_min_speed cfg)
      in if \<not> active sm \<or> 10 < lane_change_timer s
         then Inr (timer_and_desire cfg one_blinker
                     (s\<lparr>lane_change_state := off, pre_lane_change_timer := Some 0\<rparr>))
         else (case blinker_step cfg cs s of
                 Inl e \<Rightarrow> Inl e
               | Inr s1 \<Rightarrow>
                   (case pre_lane_change_timer s1 of
                      None \<Rightarrow> Inl AttributeError
                    | Some p \<Rightarrow>
                        Inr (timer_and_desire cfg one_blinker
                               (state_transitions cfg ext one_blinker below_lane_change_speed
                                  (torque_applied lane_change_direction_local cfg cs p)
                                  (blindspot_detected cs s1) s1)))))"

text \<open>
  Lines 235 to 261: the resampling of the path and the call of the optimizer. The sample
  values are floating-point results of the collaborators and are not modelled; the shapes
  are. \<^verbatim>\<open>np.interp(x, xp, fp)\<close> raises \<^verbatim>\<open>ValueError\<close> when \<open>xp\<close> is empty or
  \<open>xp\<close> and \<open>fp\<close> differ in length, and returns as many samples as \<open>x\<close> has. For
  \<^verbatim>\<open>heading_pts\<close> the sample points are the rows of \<^verbatim>\<open>self.path_xyz\<close> and the values
  are \<^verbatim>\<open>self.plan_yaw\<close>; \<open>x\<close> is \<^verbatim>\<open>self.t_idxs[:MPC_N+1]\<close> in both calls. The two
  assertions of lines 250 and 251 follow. Line 261 seeds the curvature of the next tick.
  The scaling of the lane planner's probabilities (lines 236 to 238) writes to the
  collaborator only, and the delay compensation of line 247 divides by the steer ratio
  that line 153 has divided by already, so neither adds a field or an exception.
\<close>

definition resample_and_solve :: "Config \<Rightarrow> External \<Rightarrow> LateralPlanner \<Rightarrow> error + LateralPlanner" where
  "resample_and_solve cfg ext s =
     (let len_pts = length (take (MPC_N cfg + 1) (t_idxs s)) in
      if path_xyz s = [] \<or> length (path_xyz s) \<noteq> length (plan_yaw s) then Inl ValueError
      else if len_pts \<noteq> MPC_N cfg + 1 then Inl AssertionError
      else Inr (s\<lparr>cur_state_curvature := interp_curvature ext\<rparr>))"

text \<open>
  Lines 263 to 284 turn the optimizer's trajectory into the desired steering angle and
  rate. The values are floating-point results that nothing modelled here reads, so only
  the two ways of raising are kept: the division of line 268 by
  \<^verbatim>\<open>max(v_ego, 1e-1) * delay\<close> and the divisions of lines 283 and 284 by the curvature
  factor.
\<close>

definition command_extraction :: "SubMaster \<Rightarrow> External \<Rightarrow> error + unit" where
  "command_extraction sm ext =
     (let delay = ntune_steerActuatorDelay ext + 0.2 in
      if max (vEgo (carState sm)) 0.1 * delay = 0 then Inl ZeroDivisionError
      else if curvature_factor ext = 0 then Inl ZeroDivisionError
      else Inr ())"

text \<open>Line 287.\<close>

definition mpc_nans :: "External \<Rightarrow> bool" where
  "mpc_nans ext = list_ex isnan (mpc_curvature ext)"

text \<open>The condition of line 297: the solve counts as invalid.\<close>

definition solution_invalid :: "External \<Rightarrow> bool" where
  "solution_invalid ext = (pyfloat_gt (mpc_cost ext) 20000 \<or> mpc_nans ext)"

text \<open>
  Lines 286 to 300: the check for an infeasible solution; \<open>measured\<close> is the
  \<^verbatim>\<open>measured_curvature\<close> of line 153. Only a not-a-number sample reinitialises the
  optimizer, reseeds the curvature and may log; the counter follows \<open>solution_invalid\<close>.
\<close>

definition check_solution :: "real \<Rightarrow> External \<Rightarrow> LateralPlanner \<Rightarrow> LateralPlanner" where
  "check_solution measured ext s =
     (let t = sec_since_boot ext;
          s1 = (if mpc_nans ext
                then (let s0 = s\<lparr>libmpc_init_calls := libmpc_init_calls s + 1,
                                  cur_state_curvature := Num measured\<rparr>
                      in if last_cloudlog_t s0 + 5 < t
                         then s0\<lparr>last_cloudlog_t := t, cloudlog := t # cloudlog s0\<rparr>
                         else s0)
                else s)
      in if solution_invalid ext
         then s1\<lparr>solution_invalid_cnt := solution_invalid_cnt s1 + 1\<rparr>
         else s1\<lparr>solution_invalid_cnt := 0\<rparr>)"

subsection \<open>One tick, and runs of ticks\<close>

text \<open>
  \<^verbatim>\<open>LateralPlanner.update\<close>, phase by phase in the order of the source; the first
  exception ends the tick. Lines 125 to 140 compute the arguments of
  \<^verbatim>\<open>VM.update_params\<close> and are left out: they write nothing that is read here.
\<close>

definition update :: "Config \<Rightarrow> SubMaster \<Rightarrow> External \<Rightarrow> LateralPlanner \<Rightarrow> error + LateralPlanner" where
  "update cfg sm ext s =
     (case update_tuning sm ext s of
        Inl e \<Rightarrow> Inl e
      | Inr s0 \<Rightarrow>
     (case measured_curvature sm ext of
        Inl e \<Rightarrow> Inl e
      | Inr measured \<Rightarrow>
     (case accept_forecast cfg (modelV2 sm) (update_mpc_frame s0) of
        Inl e \<Rightarrow> Inl e
      | Inr s1 \<Rightarrow>
     (case lane_change cfg sm ext s1 of
        Inl e \<Rightarrow> Inl e
      | Inr s2 \<Rightarrow>
     (case resample_and_solve cfg ext s2 of
        Inl e \<Rightarrow> Inl e
      | Inr s3 \<Rightarrow>
     (case command_extraction sm ext of
        Inl e \<Rightarrow> Inl e
      | Inr _ \<Rightarrow> Inr (check_solution measured ext s3)))))))"

text \<open>
  A run: the ticks in order, each with its snapshot and its collaborators' values. An
  exception ends the run, as it ends the process.
\<close>

fun run :: "Config \<Rightarrow> LateralPlanner \<Rightarrow> (SubMaster \<times> External) list \<Rightarrow> error + LateralPlanner" where
  "run cfg s [] = Inr s"
| "run cfg s (tk # tks) =
     (case update cfg (fst tk) (snd tk) s of
        Inl e \<Rightarrow> Inl e
      | Inr s' \<Rightarrow> run cfg s' tks)"

text \<open>
  The fields of the message that \<^verbatim>\<open>publish\<close> builds from the planner alone (lines 303,
  315 to 319, 322 and 323).
\<close>

record PlannerOutput =
  mpcSolutionValid :: bool
  out_desire :: Desire
  laneChangeState :: LaneChangeState
  laneChangeDirection :: LaneChangeDirection
  steerRateCost :: real
  steerActuatorDelay :: real

definition publish :: "LateralPlanner \<Rightarrow> PlannerOutput" where
  "publish s =
     (let plan_solution_valid = (solution_invalid_cnt s < 2) in
      \<lparr> mpcSolutionValid = plan_solution_valid,
        out_desire = desire s,
        laneChangeState = lane_change_state s,
        laneChangeDirection = lane_change_direction s,
        steerRateCost = steer_rate_cost_prev s,
        steerActuatorDelay = steer_actuator_delay_prev s \<rparr>)"

section \<open>Concrete inputs\<close>

text \<open>
  A configuration with the usual constants (a tick of a twentieth of a second, a horizon of
  33 points, 16 optimizer steps), nudge-less mode off, and the snapshots used below to run
  the planner on concrete ticks.
\<close>

definition cfg_ex :: Config where
  "cfg_ex = \<lparr> DT_MDL = 1 / 20, TRAJECTORY_SIZE = 33, MPC_N = 16,
              alc_nudge_less = False, alc_min_speed = 10, alc_timer = 2 \<rparr>"

definition planner_ex :: LateralPlanner where
  "planner_ex = LateralPlanner_init cfg_ex 1 (1 / 10)"

definition xyzt_ex :: "nat \<Rightarrow> XYZTData" where
  "xyzt_ex n = \<lparr> xyzt_x = replicate n 0, xyzt_y = replicate n 0,
                 xyzt_z = replicate n 0, xyzt_t = map real [0 ..< n] \<rparr>"

text \<open>A forecast with \<open>n\<close> points; 33 is the expected length.\<close>

definition md_ex :: "nat \<Rightarrow> ModelDataV2" where
  "md_ex n = \<lparr> position = xyzt_ex n, orientation = xyzt_ex n \<rparr>"

text \<open>
  The vehicle at 20 m/s with the given blinkers, steering torque and steering-pressed flag,
  and no blind spot.
\<close>

definition cs_ex :: "bool \<Rightarrow> bool \<Rightarrow> real \<Rightarrow> bool \<Rightarrow> CarState_msg" where
  "cs_ex lb rb torque pressed =
     \<lparr> vEgo = 20, steeringAngle = 9, steeringTorque = torque, steeringPressed = pressed,
       leftBlinker = lb, rightBlinker = rb, leftBlindspot = False, rightBlindspot = False \<rparr>"

definition sm_ex :: "bool \<Rightarrow> CarState_msg \<Rightarrow> SubMaster" where
  "sm_ex act cs = \<lparr> carState = cs, active = act, angleOffset = 0, modelV2 = md_ex 33 \<rparr>"

text \<open>
  The collaborators' values of a tick: unchanged tuning, a solution with the given cost and
  curvature samples, the lane-line probability \<open>lp\<close> on each side, the clock at \<open>t\<close>.
\<close>

definition ext_ex :: "pyfloat \<Rightarrow> pyfloat list \<Rightarrow> real \<Rightarrow> real \<Rightarrow> External" where
  "ext_ex cost curv lp t =
     \<lparr> ntune_steerRateCost = 1, ntune_steerActuatorDelay = 1 / 10,
       VM_sR_entry = 15, VM_sR = 15, curvature_factor = 1,
       l_lane_change_prob = lp, r_lane_change_prob = lp,
       mpc_cost = cost, mpc_curvature = curv, interp_curvature = Num 0,
       sec_since_boot = t \<rparr>"

text \<open>A tick with a valid solve, and a tick whose solve costs 25000 with finite samples.\<close>

definition tick_ok :: "bool \<Rightarrow> CarState_msg \<Rightarrow> real \<Rightarrow> SubMaster \<times> External" where
  "tick_ok act cs lp = (sm_ex act cs, ext_ex (Num 0) (replicate 17 (Num 0)) lp 100)"

definition tick_cost :: "real \<Rightarrow> SubMaster \<times> External" where
  "tick_cost t = (sm_ex False (cs_ex False False 0 False),
                  ext_ex (Num 25000) (replicate 17 (Num 0)) 0 t)"

text \<open>A tick whose solve has a not-a-number curvature sample, with the clock at \<open>t\<close>.\<close>

definition tick_nan :: "real \<Rightarrow> SubMaster \<times> External" where
  "tick_nan t = (sm_ex False (cs_ex False False 0 False),
                 ext_ex (Num 0) (NaN # replicate 16 (Num 0)) 0 t)"

text \<open>The ticks of a lane change to the left, used below.\<close>

definition tick_idle :: "SubMaster \<times> External" where
  "tick_idle = tick_ok False (cs_ex False False 0 False) 0"

definition tick_left_blinker :: "SubMaster \<times> External" where
  "tick_left_blinker = tick_ok True (cs_ex True False 0 False) 0"

definition tick_left_torque :: "real \<Rightarrow> SubMaster \<times> External" where
  "tick_left_torque torque = tick_ok True (cs_ex True False torque True) 0"

definition tick_no_blinker :: "SubMaster \<times> External" where
  "tick_no_blinker = tick_ok True (cs_ex False False 0 False) 0"

text \<open>
  The planner two ticks into a lane change to the left (in \<open>laneChangeStarting\<close>), the
  same planner with its lane-change timer set to 10.05 s, past the ceiling, and a tick that
  keeps the left blinker on while the lane lines are still seen with probability 1 on each
  side.
\<close>

definition planner_starting_ex :: LateralPlanner where
  "planner_starting_ex =
     projr (run cfg_ex planner_ex [tick_idle, tick_left_blinker, tick_left_torque (- 2)])"

definition planner_overtime_ex :: LateralPlanner where
  "planner_overtime_ex = planner_starting_ex\<lparr>lane_change_timer := 201 / 20\<rparr>"

definition tick_lines_seen :: "SubMaster \<times> External" where
  "tick_lines_seen = tick_ok True (cs_ex True False 0 False) 1"

text \<open>
  A whole lane change to the left, up to its last tick but one: an idle tick, the blinker,
  twelve ticks of pressed torque (the lane change starts on the first, the lane lines fade
  out over the next ten, and the twelfth is the first tick of \<open>laneChangeFinishing\<close>),
  then eighteen ticks with the blinker off while the lane lines fade in.
\<close>

definition ticks_to_finishing_ex :: "(SubMaster \<times> External) list" where
  "ticks_to_finishing_ex =
     [tick_idle, tick_left_blinker] @ replicate 12 (tick_left_torque (- 2))
       @ replicate 18 tick_no_blinker"

text \<open>The planner these ticks lead to (\<open>run_to_finishing_ex\<close> below).\<close>

definition planner_finishing_ex :: LateralPlanner where
  "planner_finishing_ex =
     planner_ex\<lparr>lane_change_state := laneChangeFinishing, lane_change_direction := left,
                 lane_change_timer := 3 / 2, lane_change_ll_prob := 19 / 20,
                 desire := laneChangeLeft, pre_lane_change_timer := Some 0,
                 mpc_frame := 32\<rparr>"

text \<open>
  The planner after one idle tick, and a tick with the controller active and the left
  blinker on whose forecast has 20 points instead of 33.
\<close>

definition planner_idle_ex :: LateralPlanner where
  "planner_idle_ex = projr (update cfg_ex (fst tick_idle) (snd tick_idle) planner_ex)"

definition tick_short_forecast :: "SubMaster \<times> External" where
  "tick_short_forecast =
     ((sm_ex True (cs_ex True False 0 False))\<lparr>modelV2 := md_ex 20\<rparr>,
      ext_ex (Num 0) (replicate 17 (Num 0)) 0 100)"

section \<open>Predicates of the properties\<close>

text \<open>
  A log of emission times, newest first, in which every emission comes more than five
  seconds after every earlier one.
\<close>

fun five_seconds_apart :: "real list \<Rightarrow> bool" where
  "five_seconds_apart [] = True"
| "five_seconds_apart (t # ts) = (list_all (\<lambda>u. u + 5 < t) ts \<and> five_seconds_apart ts)"

text \<open>
  Every logged emission is at most \<open>last_cloudlog_t\<close>, and an emission needs the clock
  beyond \<open>last_cloudlog_t + 5\<close>: so the log is spaced. This is the invariant behind
  \<open>five_seconds_apart\<close>.
\<close>

definition log_spaced :: "LateralPlanner \<Rightarrow> bool" where
  "log_spaced s = (five_seconds_apart (cloudlog s)
                   \<and> list_all (\<lambda>u. u \<le> last_cloudlog_t s) (cloudlog s))"

text \<open>
  The collaborators hand back no zero divisor in this tick: the steer ratio where the tick
  divides by it (line 122 only when the actuator delay changed, line 153 always), the
  curvature factor (lines 283 and 284) and the delay of line 264.
\<close>

definition divisors_nonzero :: "LateralPlanner \<Rightarrow> External \<Rightarrow> bool" where
  "divisors_nonzero s ext =
     ((steer_actuator_delay_prev s = ntune_steerActuatorDelay ext \<or> VM_sR_entry ext \<noteq> 0)
      \<and> VM_sR ext \<noteq> 0 \<and> curvature_factor ext \<noteq> 0
      \<and> ntune_steerActuatorDelay ext + 0.2 \<noteq> 0)"

section \<open>Turn signals\<close>

text \<open>
  Claim C10. In every decoded snapshot the two blinker flags are never both set, because
  they compare one signal with two different values; hence the planner's test
  \<^verbatim>\<open>leftBlinker != rightBlinker\<close> says the same as "a blinker is on".
\<close>

theorem C10_blinkers_exclusive:
  "\<not> (ret_leftBlinker (CarState_update thr vl) \<and> ret_rightBlinker (CarState_update thr vl))
   \<and> ((ret_leftBlinker (CarState_update thr vl) \<noteq> ret_rightBlinker (CarState_update thr vl))
        = (ret_leftBlinker (CarState_update thr vl) \<or> ret_rightBlinker (CarState_update thr vl)))"
  by (auto simp: CarState_update_def)

section \<open>The phases, one by one\<close>

lemma update_Inr_phases:
  assumes "update cfg sm ext s = Inr s'"
  obtains s0 measured s1 s2 s3 where
    "update_tuning sm ext s = Inr s0"
    "measured_curvature sm ext = Inr measured"
    "accept_forecast cfg (modelV2 sm) (update_mpc_frame s0) = Inr s1"
    "lane_change cfg sm ext s1 = Inr s2"
    "resample_and_solve cfg ext s2 = Inr s3"
    "command_extraction sm ext = Inr ()"
    "s' = check_solution measured ext s3"
  using assms by (auto simp: update_def split: sum.splits)

text \<open>What the phases outside the lane-change logic leave alone.\<close>

lemma update_tuning_lane:
  assumes "update_tuning sm ext s = Inr s0"
  shows "lane_change_state s0 = lane_change_state s"
    and "lane_change_direction s0 = lane_change_direction s"
    and "lane_change_timer s0 = lane_change_timer s"
    and "lane_change_ll_prob s0 = lane_change_ll_prob s"
    and "prev_one_blinker s0 = prev_one_blinker s"
    and "pre_lane_change_timer s0 = pre_lane_change_timer s"
    and "path_xyz s0 = path_xyz s" and "t_idxs s0 = t_idxs s" and "plan_yaw s0 = plan_yaw s"
    and "solution_invalid_cnt s0 = solution_invalid_cnt s"
    and "cloudlog s0 = cloudlog s" and "last_cloudlog_t s0 = last_cloudlog_t s"
  using assms
  by (auto simp: update_tuning_def py_div_def Let_def split: if_splits)

lemma accept_forecast_lane:
  assumes "accept_forecast cfg md s = Inr s1"
  shows "lane_change_state s1 = lane_change_state s"
    and "lane_change_direction s1 = lane_change_direction s"
    and "lane_change_timer s1 = lane_change_timer s"
    and "lane_change_ll_prob s1 = lane_change_ll_prob s"
    and "prev_one_blinker s1 = prev_one_blinker s"
    and "pre_lane_change_timer s1 = pre_lane_change_timer s"
    and "solution_invalid_cnt s1 = solution_invalid_cnt s"
    and "cloudlog s1 = cloudlog s" and "last_cloudlog_t s1 = last_cloudlog_t s"
    and "libmpc_init_calls s1 = libmpc_init_calls s"
    and "cur_state_curvature s1 = cur_state_curvature s"
  using assms
  by (auto simp: accept_forecast_def split: if_splits sum.splits)

lemma update_mpc_frame_simps [simp]:
  "lane_change_state (update_mpc_frame s) = lane_change_state s"
  "lane_change_direction (update_mpc_frame s) = lane_change_direction s"
  "lane_change_timer (update_mpc_frame s) = lane_change_timer s"
  "lane_change_ll_prob (update_mpc_frame s) = lane_change_ll_prob s"
  "prev_one_blinker (update_mpc_frame s) = prev_one_blinker s"
  "pre_lane_change_timer (update_mpc_frame s) = pre_lane_change_timer s"
  "path_xyz (update_mpc_frame s) = path_xyz s"
  "t_idxs (update_mpc_frame s) = t_idxs s"
  "plan_yaw (update_mpc_frame s) = plan_yaw s"
  "solution_invalid_cnt (update_mpc_frame s) = solution_invalid_cnt s"
  "cloudlog (update_mpc_frame s) = cloudlog s"
  "last_cloudlog_t (update_mpc_frame s) = last_cloudlog_t s"
  "libmpc_init_calls (update_mpc_frame s) = libmpc_init_calls s"
  "cur_state_curvature (update_mpc_frame s) = cur_state_curvature s"
  by (simp_all add: update_mpc_frame_def Let_def)

lemma resample_and_solve_frame:
  assumes "resample_and_solve cfg ext s = Inr s3"
  shows "s3 = s\<lparr>cur_state_curvature := interp_curvature ext\<rparr>"
    and "path_xyz s \<noteq> []" and "length (path_xyz s) = length (plan_yaw s)"
    and "length (take (MPC_N cfg + 1) (t_idxs s)) = MPC_N cfg + 1"
  using assms
  by (auto simp: resample_and_solve_def Let_def split: if_splits)

lemma check_solution_simps [simp]:
  "lane_change_state (check_solution m ext s) = lane_change_state s"
  "lane_change_direction (check_solution m ext s) = lane_change_direction s"
  "lane_change_timer (check_solution m ext s) = lane_change_timer s"
  "lane_change_ll_prob (check_solution m ext s) = lane_change_ll_prob s"
  "prev_one_blinker (check_solution m ext s) = prev_one_blinker s"
  "pre_lane_change_timer (check_solution m ext s) = pre_lane_change_timer s"
  "path_xyz (check_solution m ext s) = path_xyz s"
  "t_idxs (check_solution m ext s) = t_idxs s"
  "plan_yaw (check_solution m ext s) = plan_yaw s"
  by (simp_all add: check_solution_def Let_def)

lemma timer_and_desire_simps [simp]:
  "path_xyz (timer_and_desire cfg ob s) = path_xyz s"
  "t_idxs (timer_and_desire cfg ob s) = t_idxs s"
  "plan_yaw (timer_and_desire cfg ob s) = plan_yaw s"
  "solution_invalid_cnt (timer_and_desire cfg ob s) = solution_invalid_cnt s"
  "cloudlog (timer_and_desire cfg ob s) = cloudlog s"
  "last_cloudlog_t (timer_and_desire cfg ob s) = last_cloudlog_t s"
  "libmpc_init_calls (timer_and_desire cfg ob s) = libmpc_init_calls s"
  "cur_state_curvature (timer_and_desire cfg ob s) = cur_state_curvature s"
  "pre_lane_change_timer (timer_and_desire cfg ob s) = pre_lane_change_timer s"
  "lane_change_state (timer_and_desire cfg ob s) = lane_change_state s"
  "lane_change_direction (timer_and_desire cfg ob s) = lane_change_direction s"
  "lane_change_ll_prob (timer_and_desire cfg ob s) = lane_change_ll_prob s"
  "prev_one_blinker (timer_and_desire cfg ob s) = ob"
  by (simp_all add: timer_and_desire_def Let_def)

lemma state_transitions_simps [simp]:
  "path_xyz (state_transitions cfg ext ob bl tq bs s) = path_xyz s"
  "t_idxs (state_transitions cfg ext ob bl tq bs s) = t_idxs s"
  "plan_yaw (state_transitions cfg ext ob bl tq bs s) = plan_yaw s"
  "solution_invalid_cnt (state_transitions cfg ext ob bl tq bs s) = solution_invalid_cnt s"
  "cloudlog (state_transitions cfg ext ob bl tq bs s) = cloudlog s"
  "last_cloudlog_t (state_transitions cfg ext ob bl tq bs s) = last_cloudlog_t s"
  "libmpc_init_calls (state_transitions cfg ext ob bl tq bs s) = libmpc_init_calls s"
  "cur_state_curvature (state_transitions cfg ext ob bl tq bs s) = cur_state_curvature s"
  "pre_lane_change_timer (state_transitions cfg ext ob bl tq bs s) = pre_lane_change_timer s"
  "lane_change_direction (state_transitions cfg ext ob bl tq bs s) = lane_change_direction s"
  "lane_change_timer (state_transitions cfg ext ob bl tq bs s) = lane_change_timer s"
  "prev_one_blinker (state_transitions cfg ext ob bl tq bs s) = prev_one_blinker s"
  by (simp_all add: state_transitions_def Let_def)

lemma blinker_step_frame:
  assumes "blinker_step cfg cs s = Inr s1"
  shows "path_xyz s1 = path_xyz s" and "t_idxs s1 = t_idxs s" and "plan_yaw s1 = plan_yaw s"
    and "solution_invalid_cnt s1 = solution_invalid_cnt s"
    and "cloudlog s1 = cloudlog s" and "last_cloudlog_t s1 = last_cloudlog_t s"
    and "libmpc_init_calls s1 = libmpc_init_calls s"
    and "cur_state_curvature s1 = cur_state_curvature s"
    and "lane_change_state s1 = lane_change_state s"
    and "lane_change_timer s1 = lane_change_timer s"
    and "lane_change_ll_prob s1 = lane_change_ll_prob s"
    and "prev_one_blinker s1 = prev_one_blinker s"
    and "pre_lane_change_timer s1 \<noteq> None"
    and "lane_change_direction s1 =
           (if leftBlinker cs then left else if rightBlinker cs then right
            else lane_change_direction s)"
  using assms
  by (auto simp: blinker_step_def split: if_splits option.splits)

text \<open>The two ways through the lane-change logic.\<close>

lemma lane_change_forced_off:
  assumes "\<not> active sm \<or> 10 < lane_change_timer s"
  shows "lane_change cfg sm ext s =
           Inr (timer_and_desire cfg (leftBlinker (carState sm) \<noteq> rightBlinker (carState sm))
                  (s\<lparr>lane_change_state := off, pre_lane_change_timer := Some 0\<rparr>))"
  using assms by (simp add: lane_change_def Let_def)

lemma lane_change_machine:
  assumes "lane_change cfg sm ext s = Inr s2" and "active sm" and "\<not> 10 < lane_change_timer s"
  obtains s1 p where
    "blinker_step cfg (carState sm) s = Inr s1"
    "pre_lane_change_timer s1 = Some p"
    "s2 = timer_and_desire cfg (leftBlinker (carState sm) \<noteq> rightBlinker (carState sm))
            (state_transitions cfg ext
               (leftBlinker (carState sm) \<noteq> rightBlinker (carState sm))
               (vEgo (carState sm) < alc_min_speed cfg)
               (torque_applied none cfg (carState sm) p)
               (blindspot_detected (carState sm) s1) s1)"
  using assms by (auto simp: lane_change_def Let_def split: sum.splits option.splits)

lemma lane_change_frame:
  assumes "lane_change cfg sm ext s = Inr s2"
  shows "path_xyz s2 = path_xyz s" and "t_idxs s2 = t_idxs s" and "plan_yaw s2 = plan_yaw s"
    and "solution_invalid_cnt s2 = solution_invalid_cnt s"
    and "cloudlog s2 = cloudlog s" and "last_cloudlog_t s2 = last_cloudlog_t s"
    and "libmpc_init_calls s2 = libmpc_init_calls s"
    and "cur_state_curvature s2 = cur_state_curvature s"
    and "pre_lane_change_timer s2 \<noteq> None"
proof -
  have "path_xyz s2 = path_xyz s \<and> t_idxs s2 = t_idxs s \<and> plan_yaw s2 = plan_yaw s
      \<and> solution_invalid_cnt s2 = solution_invalid_cnt s
      \<and> cloudlog s2 = cloudlog s \<and> last_cloudlog_t s2 = last_cloudlog_t s
      \<and> libmpc_init_calls s2 = libmpc_init_calls s
      \<and> cur_state_curvature s2 = cur_state_curvature s
      \<and> pre_lane_change_timer s2 \<noteq> None" (is ?goal)
  proof (cases "\<not> active sm \<or> 10 < lane_change_timer s")
    case True
    from assms lane_change_forced_off [OF True, of cfg ext] show ?goal by auto
  next
    case False
    then obtain s1 p where b: "blinker_step cfg (carState sm) s = Inr s1"
      and p: "pre_lane_change_timer s1 = Some p"
      and s2: "s2 = timer_and_desire cfg (leftBlinker (carState sm) \<noteq> rightBlinker (carState sm))
            (state_transitions cfg ext
               (leftBlinker (carState sm) \<noteq> rightBlinker (carState sm))
               (vEgo (carState sm) < alc_min_speed cfg)
               (torque_applied none cfg (carState sm) p)
               (blindspot_detected (carState sm) s1) s1)"
      using lane_change_machine [OF assms] by blast
    show ?goal unfolding s2 using blinker_step_frame [OF b] p by simp
  qed
  then show "path_xyz s2 = path_xyz s" "t_idxs s2 = t_idxs s" "plan_yaw s2 = plan_yaw s"
    "solution_invalid_cnt s2 = solution_invalid_cnt s"
    "cloudlog s2 = cloudlog s" "last_cloudlog_t s2 = last_cloudlog_t s"
    "libmpc_init_calls s2 = libmpc_init_calls s"
    "cur_state_curvature s2 = cur_state_curvature s"
    "pre_lane_change_timer s2 \<noteq> None" by simp_all
qed

section \<open>The first tick\<close>

text \<open>
  A planner that has not completed a tick has no \<open>pre_lane_change_timer\<close>. Its tick
  with the controller active and a blinker on cannot complete: unless an earlier line
  raises, line 174 or 177 raises \<^verbatim>\<open>AttributeError\<close>.
\<close>

lemma fresh_planner_blinker_tick_raises:
  assumes "active sm" and "leftBlinker (carState sm) \<or> rightBlinker (carState sm)"
  shows "\<exists>e. update cfg sm ext (LateralPlanner_init cfg rc dl) = Inl e"
proof (cases "update cfg sm ext (LateralPlanner_init cfg rc dl)")
  case (Inl e)
  then show ?thesis by blast
next
  case (Inr s')
  then obtain s0 s1 s2 where t: "update_tuning sm ext (LateralPlanner_init cfg rc dl) = Inr s0"
    and a: "accept_forecast cfg (modelV2 sm) (update_mpc_frame s0) = Inr s1"
    and l: "lane_change cfg sm ext s1 = Inr s2"
    by (auto elim: update_Inr_phases)
  have p: "pre_lane_change_timer s1 = None" and tm: "lane_change_timer s1 = 0"
    using update_tuning_lane [OF t] accept_forecast_lane [OF a]
    by (simp_all add: LateralPlanner_init_def)
  from tm assms(1) have "\<not> 10 < lane_change_timer s1" by simp
  with l assms(1) obtain s1' where "blinker_step cfg (carState sm) s1 = Inr s1'"
    by (auto elim: lane_change_machine)
  with p assms(2) show ?thesis
    by (auto simp: blinker_step_def split: if_splits)
qed

text \<open>
  Claim C9, at a concrete input: the first tick of a freshly constructed planner, with the
  controller active and the left blinker on, raises \<^verbatim>\<open>AttributeError\<close>.
\<close>

theorem C9_first_tick_raises:
  "update cfg_ex (fst tick_left_blinker) (snd tick_left_blinker) planner_ex = Inl AttributeError"
  by code_simp

section \<open>The torque nudge\<close>

text \<open>
  Claim C1, at a concrete input. After an idle tick the left blinker comes on at 20 m/s:
  the planner is in \<open>preLaneChange\<close> with direction \<open>left\<close>. On the next tick a pressed
  steering torque of -2 (to the right) starts the lane change, and a pressed torque of +2
  (to the left) does not.
\<close>

theorem C1_left_change_opposite_torque:
  "map_sum id lane_change_state (run cfg_ex planner_ex [tick_idle, tick_left_blinker])
     = Inr preLaneChange
   \<and> map_sum id lane_change_direction (run cfg_ex planner_ex [tick_idle, tick_left_blinker])
     = Inr left
   \<and> map_sum id lane_change_state
       (run cfg_ex planner_ex [tick_idle, tick_left_blinker, tick_left_torque (- 2)])
     = Inr laneChangeStarting
   \<and> map_sum id lane_change_state
       (run cfg_ex planner_ex [tick_idle, tick_left_blinker, tick_left_torque 2])
     = Inr preLaneChange"
  by code_simp

section \<open>Runs\<close>

lemma run_append:
  "run cfg s (xs @ ys) = (case run cfg s xs of Inl e \<Rightarrow> Inl e | Inr s' \<Rightarrow> run cfg s' ys)"
  by (induction xs arbitrary: s) (auto split: sum.splits)

lemma run_single: "run cfg s [tk] = update cfg (fst tk) (snd tk) s"
  by (simp split: sum.splits)

text \<open>A property that the constructor establishes and every tick keeps holds after every run.\<close>

lemma run_invariant:
  assumes "run cfg s0 tks = Inr s" and "P s0"
    and "\<And>sm ext a b. P a \<Longrightarrow> update cfg sm ext a = Inr b \<Longrightarrow> P b"
  shows "P s"
  using assms(1,2)
proof (induction tks arbitrary: s0)
  case Nil
  then show ?case by simp
next
  case (Cons tk tks)
  then obtain s1 where u: "update cfg (fst tk) (snd tk) s0 = Inr s1" and r: "run cfg s1 tks = Inr s"
    by (auto split: sum.splits)
  from assms(3) [OF Cons.prems(2) u] have "P s1" .
  with Cons.IH r show ?case by blast
qed

section \<open>The check of the solution\<close>

lemma update_tuning_calls:
  assumes "update_tuning sm ext s = Inr s0"
  shows "libmpc_init_calls s0 = libmpc_init_calls s
           + (if steer_actuator_delay_prev s \<noteq> ntune_steerActuatorDelay ext then 1 else 0)"
  using assms
  by (auto simp: update_tuning_def py_div_def Let_def split: if_splits)

text \<open>The planner that enters the check of lines 286 to 300, in terms of the tick's start.\<close>

lemma update_Inr_check:
  assumes "update cfg sm ext s = Inr s'"
  obtains measured s3 where
    "measured_curvature sm ext = Inr measured"
    "s' = check_solution measured ext s3"
    "solution_invalid_cnt s3 = solution_invalid_cnt s"
    "cloudlog s3 = cloudlog s"
    "last_cloudlog_t s3 = last_cloudlog_t s"
    "libmpc_init_calls s3 = libmpc_init_calls s
       + (if steer_actuator_delay_prev s \<noteq> ntune_steerActuatorDelay ext then 1 else 0)"
    "cur_state_curvature s3 = interp_curvature ext"
proof -
  from assms obtain s0 measured s1 s2 s3 where
    t: "update_tuning sm ext s = Inr s0" and
    m: "measured_curvature sm ext = Inr measured" and
    a: "accept_forecast cfg (modelV2 sm) (update_mpc_frame s0) = Inr s1" and
    l: "lane_change cfg sm ext s1 = Inr s2" and
    r: "resample_and_solve cfg ext s2 = Inr s3" and
    c: "s' = check_solution measured ext s3"
    by (auto elim: update_Inr_phases)
  have s3: "s3 = s2\<lparr>cur_state_curvature := interp_curvature ext\<rparr>"
    using resample_and_solve_frame(1) [OF r] .
  have "solution_invalid_cnt s3 = solution_invalid_cnt s"
    "cloudlog s3 = cloudlog s" "last_cloudlog_t s3 = last_cloudlog_t s"
    using update_tuning_lane [OF t] accept_forecast_lane [OF a] lane_change_frame [OF l]
    by (simp_all add: s3)
  moreover have "libmpc_init_calls s3 = libmpc_init_calls s
       + (if steer_actuator_delay_prev s \<noteq> ntune_steerActuatorDelay ext then 1 else 0)"
    using update_tuning_calls [OF t] accept_forecast_lane(10) [OF a] lane_change_frame(7) [OF l]
    by (simp add: s3)
  moreover have "cur_state_curvature s3 = interp_curvature ext" by (simp add: s3)
  ultimately show thesis using that m c by blast
qed

lemma update_solution_invalid_cnt:
  assumes "update cfg sm ext s = Inr s'"
  shows "solution_invalid_cnt s' =
           (if solution_invalid ext then solution_invalid_cnt s + 1 else 0)"
  using assms by (elim update_Inr_check) (simp add: check_solution_def Let_def)

lemma update_cloudlog:
  assumes "update cfg sm ext s = Inr s'"
  shows "cloudlog s' = (if mpc_nans ext \<and> last_cloudlog_t s + 5 < sec_since_boot ext
                        then sec_since_boot ext # cloudlog s else cloudlog s)"
    and "last_cloudlog_t s' = (if mpc_nans ext \<and> last_cloudlog_t s + 5 < sec_since_boot ext
                               then sec_since_boot ext else last_cloudlog_t s)"
  using assms by (elim update_Inr_check, simp add: check_solution_def Let_def)+

lemma run_solution_invalid_cnt_nonneg:
  assumes "run cfg (LateralPlanner_init cfg rc dl) tks = Inr s"
  shows "0 \<le> solution_invalid_cnt s"
  using assms
proof (rule run_invariant)
  show "0 \<le> solution_invalid_cnt (LateralPlanner_init cfg rc dl)"
    by (simp add: LateralPlanner_init_def)
next
  fix sm ext a b
  assume "0 \<le> solution_invalid_cnt a" and "update cfg sm ext a = Inr b"
  then show "0 \<le> solution_invalid_cnt b"
    by (simp add: update_solution_invalid_cnt)
qed

lemma update_log_spaced:
  assumes "log_spaced a" and "update cfg sm ext a = Inr b"
  shows "log_spaced b"
proof (cases "mpc_nans ext \<and> last_cloudlog_t a + 5 < sec_since_boot ext")
  case True
  with update_cloudlog [OF assms(2)]
  have b: "cloudlog b = sec_since_boot ext # cloudlog a" "last_cloudlog_t b = sec_since_boot ext"
    by simp_all
  from assms(1) True have "list_all (\<lambda>u. u + 5 < sec_since_boot ext) (cloudlog a)"
    and "list_all (\<lambda>u. u \<le> sec_since_boot ext) (cloudlog a)"
    by (auto simp: log_spaced_def list_all_iff)
  with assms(1) show ?thesis by (simp add: log_spaced_def b)
next
  case False
  with update_cloudlog [OF assms(2)] assms(1) show ?thesis
    by (auto simp: log_spaced_def)
qed

lemma run_log_spaced:
  assumes "run cfg (LateralPlanner_init cfg rc dl) tks = Inr s"
  shows "five_seconds_apart (cloudlog s)"
proof -
  have "log_spaced s"
    using assms
  proof (rule run_invariant)
    show "log_spaced (LateralPlanner_init cfg rc dl)"
      by (simp add: log_spaced_def LateralPlanner_init_def)
  qed (rule update_log_spaced)
  then show ?thesis by (simp add: log_spaced_def)
qed

section \<open>Invalid solves\<close>

text \<open>
  Claim C2, as amended. A tick counts its solve as invalid when the cost exceeds 20000 or
  a curvature sample is not a number, and then increments the counter. The optimizer is
  reinitialised and its curvature reseeded from the measured curvature only when a sample
  is not a number: a tick calls \<^verbatim>\<open>libmpc.init\<close> once for a changed actuator delay and
  once for a not-a-number sample, and with no such sample the carried curvature is the one
  interpolated from the solution, whatever the cost.
\<close>

theorem C2_invalid_solve:
  assumes "update cfg sm ext s = Inr s'"
  shows "solution_invalid ext = (pyfloat_gt (mpc_cost ext) 20000 \<or> list_ex isnan (mpc_curvature ext))
    \<and> solution_invalid_cnt s' = (if solution_invalid ext then solution_invalid_cnt s + 1 else 0)
    \<and> libmpc_init_calls s' = libmpc_init_calls s
         + (if steer_actuator_delay_prev s \<noteq> ntune_steerActuatorDelay ext then 1 else 0)
         + (if mpc_nans ext then 1 else 0)
    \<and> (\<exists>measured. measured_curvature sm ext = Inr measured
         \<and> cur_state_curvature s' = (if mpc_nans ext then Num measured else interp_curvature ext))"
proof -
  from assms obtain measured s3 where
    m: "measured_curvature sm ext = Inr measured" and
    c: "s' = check_solution measured ext s3" and
    i: "libmpc_init_calls s3 = libmpc_init_calls s
       + (if steer_actuator_delay_prev s \<noteq> ntune_steerActuatorDelay ext then 1 else 0)" and
    k: "cur_state_curvature s3 = interp_curvature ext"
    by (auto elim: update_Inr_check)
  have "libmpc_init_calls s' = libmpc_init_calls s3 + (if mpc_nans ext then 1 else 0)"
    by (simp add: c check_solution_def Let_def)
  moreover have "cur_state_curvature s' = (if mpc_nans ext then Num measured else interp_curvature ext)"
    using k by (simp add: c check_solution_def Let_def)
  ultimately show ?thesis
    using m i update_solution_invalid_cnt [OF assms]
    by (simp add: solution_invalid_def mpc_nans_def)
qed

theorem C2_invalid_solve_witness:
  "update cfg_ex (fst (tick_nan 100)) (snd (tick_nan 100)) planner_ex
     = Inr (projr (update cfg_ex (fst (tick_nan 100)) (snd (tick_nan 100)) planner_ex))
   \<and> solution_invalid_cnt (projr (update cfg_ex (fst (tick_nan 100)) (snd (tick_nan 100)) planner_ex)) = 1
   \<and> libmpc_init_calls (projr (update cfg_ex (fst (tick_nan 100)) (snd (tick_nan 100)) planner_ex)) = 2
   \<and> Inr (cur_state_curvature
            (projr (update cfg_ex (fst (tick_nan 100)) (snd (tick_nan 100)) planner_ex)))
       = map_sum id Num (measured_curvature (fst (tick_nan 100)) (snd (tick_nan 100)))"
proof -
  have u: "update cfg_ex (fst (tick_nan 100)) (snd (tick_nan 100)) planner_ex
     = Inr (projr (update cfg_ex (fst (tick_nan 100)) (snd (tick_nan 100)) planner_ex))"
    by code_simp
  have n: "mpc_nans (snd (tick_nan 100))" "solution_invalid (snd (tick_nan 100))"
    by code_simp+
  have p: "solution_invalid_cnt planner_ex = 0" "libmpc_init_calls planner_ex = 1"
    "steer_actuator_delay_prev planner_ex = ntune_steerActuatorDelay (snd (tick_nan 100))"
    by code_simp+
  from C2_invalid_solve [OF u] n p show ?thesis
    using u by auto
qed

text \<open>
  The claim as stated fails on a tick whose solve costs 25000 with finite samples: the
  counter goes up, but \<^verbatim>\<open>libmpc.init\<close> is not called again (the one call is the
  constructor's) and the carried curvature is the interpolated 0, not the measured one.
\<close>

theorem C2_counterexample:
  "map_sum id solution_invalid_cnt
     (update cfg_ex (fst (tick_cost 100)) (snd (tick_cost 100)) planner_ex) = Inr 1
   \<and> libmpc_init_calls planner_ex = 1
   \<and> map_sum id libmpc_init_calls
       (update cfg_ex (fst (tick_cost 100)) (snd (tick_cost 100)) planner_ex) = Inr 1
   \<and> map_sum id cur_state_curvature
       (update cfg_ex (fst (tick_cost 100)) (snd (tick_cost 100)) planner_ex) = Inr (Num 0)
   \<and> measured_curvature (fst (tick_cost 100)) (snd (tick_cost 100)) = Inr (- (math_pi / 300))"
  by code_simp

section \<open>The validity flag\<close>

lemma run_snoc:
  assumes "run cfg s0 (tks @ [tk]) = Inr s'"
  obtains s where "run cfg s0 tks = Inr s" and "update cfg (fst tk) (snd tk) s = Inr s'"
  using assms by (auto simp: run_append split: sum.splits)

text \<open>
  Claim C3. The published flag is false exactly when the counter is 2 or more. After any
  run of a freshly constructed planner, two further ticks whose solves are both invalid
  leave the flag false; an invalid solve followed by a valid one leaves the counter at zero
  and the flag true.
\<close>

theorem C3_validity_flag:
  assumes "run cfg (LateralPlanner_init cfg rc dl) (tks @ [tk1, tk2]) = Inr s2"
  shows "mpcSolutionValid (publish s2) = (\<not> 2 \<le> solution_invalid_cnt s2)
    \<and> (solution_invalid (snd tk1) \<and> solution_invalid (snd tk2)
         \<longrightarrow> \<not> mpcSolutionValid (publish s2))
    \<and> (solution_invalid (snd tk1) \<and> \<not> solution_invalid (snd tk2)
         \<longrightarrow> solution_invalid_cnt s2 = 0 \<and> mpcSolutionValid (publish s2))"
proof -
  from assms have "run cfg (LateralPlanner_init cfg rc dl) ((tks @ [tk1]) @ [tk2]) = Inr s2"
    by simp
  then obtain s1 where r1: "run cfg (LateralPlanner_init cfg rc dl) (tks @ [tk1]) = Inr s1"
    and u2: "update cfg (fst tk2) (snd tk2) s1 = Inr s2"
    by (rule run_snoc)
  from r1 obtain s where r: "run cfg (LateralPlanner_init cfg rc dl) tks = Inr s"
    and u1: "update cfg (fst tk1) (snd tk1) s = Inr s1"
    by (rule run_snoc)
  have nn: "0 \<le> solution_invalid_cnt s"
    using r by (rule run_solution_invalid_cnt_nonneg)
  have c1: "solution_invalid_cnt s1 =
      (if solution_invalid (snd tk1) then solution_invalid_cnt s + 1 else 0)"
    using u1 by (rule update_solution_invalid_cnt)
  have c2: "solution_invalid_cnt s2 =
      (if solution_invalid (snd tk2) then solution_invalid_cnt s1 + 1 else 0)"
    using u2 by (rule update_solution_invalid_cnt)
  have v: "mpcSolutionValid (publish s2) = (\<not> 2 \<le> solution_invalid_cnt s2)"
    by (auto simp: publish_def Let_def)
  show ?thesis using nn c1 c2 by (auto simp: v)
qed

theorem C3_validity_flag_witness:
  "run cfg_ex planner_ex [tick_nan 100, tick_nan 101]
     = Inr (projr (run cfg_ex planner_ex [tick_nan 100, tick_nan 101]))
   \<and> \<not> mpcSolutionValid (publish (projr (run cfg_ex planner_ex [tick_nan 100, tick_nan 101])))
   \<and> run cfg_ex planner_ex [tick_nan 100, tick_idle]
     = Inr (projr (run cfg_ex planner_ex [tick_nan 100, tick_idle]))
   \<and> mpcSolutionValid (publish (projr (run cfg_ex planner_ex [tick_nan 100, tick_idle])))"
proof -
  have a: "run cfg_ex (LateralPlanner_init cfg_ex 1 (1 / 10)) ([] @ [tick_nan 100, tick_nan 101])
     = Inr (projr (run cfg_ex planner_ex [tick_nan 100, tick_nan 101]))"
    by code_simp
  have b: "run cfg_ex (LateralPlanner_init cfg_ex 1 (1 / 10)) ([] @ [tick_nan 100, tick_idle])
     = Inr (projr (run cfg_ex planner_ex [tick_nan 100, tick_idle]))"
    by code_simp
  have i: "solution_invalid (snd (tick_nan 100))" "solution_invalid (snd (tick_nan 101))"
    "\<not> solution_invalid (snd tick_idle)"
    by code_simp+
  have a': "run cfg_ex planner_ex [tick_nan 100, tick_nan 101]
     = Inr (projr (run cfg_ex planner_ex [tick_nan 100, tick_nan 101]))"
    by code_simp
  have b': "run cfg_ex planner_ex [tick_nan 100, tick_idle]
     = Inr (projr (run cfg_ex planner_ex [tick_nan 100, tick_idle]))"
    by code_simp
  from C3_validity_flag [OF a] i
  have x: "\<not> mpcSolutionValid (publish (projr (run cfg_ex planner_ex [tick_nan 100, tick_nan 101])))"
    by blast
  from C3_validity_flag [OF b] i
  have y: "mpcSolutionValid (publish (projr (run cfg_ex planner_ex [tick_nan 100, tick_idle])))"
    by blast
  from a' x b' y show ?thesis by blast
qed

section \<open>Divergence diagnostics\<close>

text \<open>
  Claim C4, as amended. In every run of a freshly constructed planner any two diagnostics
  are more than five seconds of clock time apart. When the last three ticks of a run each
  have a solve of cost 25000 with finite curvature samples, the counter grows by three
  over them (to 3 from a zero counter), the validity flag is false after the second and the
  third, and these ticks emit no diagnostic at all: the log is what it was before them.
\<close>

theorem C4_divergence_diagnostics:
  assumes any_run: "run cfg (LateralPlanner_init cfg rc dl) tks0 = Inr s0"
    and scenario: "run cfg (LateralPlanner_init cfg rc dl) (tks @ [tk1, tk2, tk3]) = Inr s3"
    and cost: "\<forall>tk \<in> {tk1, tk2, tk3}. mpc_cost (snd tk) = Num 25000 \<and> \<not> mpc_nans (snd tk)"
  shows "five_seconds_apart (cloudlog s0)
    \<and> (\<exists>s s2. run cfg (LateralPlanner_init cfg rc dl) tks = Inr s
          \<and> run cfg (LateralPlanner_init cfg rc dl) (tks @ [tk1, tk2]) = Inr s2
          \<and> solution_invalid_cnt s3 = solution_invalid_cnt s + 3
          \<and> 3 \<le> solution_invalid_cnt s3
          \<and> \<not> mpcSolutionValid (publish s2)
          \<and> \<not> mpcSolutionValid (publish s3)
          \<and> cloudlog s3 = cloudlog s)"
proof -
  from scenario
  have "run cfg (LateralPlanner_init cfg rc dl) ((tks @ [tk1, tk2]) @ [tk3]) = Inr s3"
    by simp
  then obtain s2 where r2: "run cfg (LateralPlanner_init cfg rc dl) (tks @ [tk1, tk2]) = Inr s2"
    and u3: "update cfg (fst tk3) (snd tk3) s2 = Inr s3"
    by (rule run_snoc)
  from r2 have "run cfg (LateralPlanner_init cfg rc dl) ((tks @ [tk1]) @ [tk2]) = Inr s2"
    by simp
  then obtain s1 where r1: "run cfg (LateralPlanner_init cfg rc dl) (tks @ [tk1]) = Inr s1"
    and u2: "update cfg (fst tk2) (snd tk2) s1 = Inr s2"
    by (rule run_snoc)
  from r1 obtain s where r: "run cfg (LateralPlanner_init cfg rc dl) tks = Inr s"
    and u1: "update cfg (fst tk1) (snd tk1) s = Inr s1"
    by (rule run_snoc)
  from cost have inv: "solution_invalid (snd tk1)" "solution_invalid (snd tk2)"
    "solution_invalid (snd tk3)"
    and fin: "\<not> mpc_nans (snd tk1)" "\<not> mpc_nans (snd tk2)" "\<not> mpc_nans (snd tk3)"
    by (simp_all add: solution_invalid_def)
  have nn: "0 \<le> solution_invalid_cnt s"
    using r by (rule run_solution_invalid_cnt_nonneg)
  have c1: "solution_invalid_cnt s1 = solution_invalid_cnt s + 1"
    using update_solution_invalid_cnt [OF u1] inv by simp
  have c2: "solution_invalid_cnt s2 = solution_invalid_cnt s + 2"
    using update_solution_invalid_cnt [OF u2] inv c1 by simp
  have c3: "solution_invalid_cnt s3 = solution_invalid_cnt s + 3"
    using update_solution_invalid_cnt [OF u3] inv c2 by simp
  have l: "cloudlog s3 = cloudlog s"
    using update_cloudlog(1) [OF u1] update_cloudlog(1) [OF u2] update_cloudlog(1) [OF u3] fin
    by simp
  have v: "\<not> mpcSolutionValid (publish s2)" "\<not> mpcSolutionValid (publish s3)"
    using nn c2 c3 by (simp_all add: publish_def Let_def)
  have "five_seconds_apart (cloudlog s0)"
    using any_run by (rule run_log_spaced)
  with r r2 c3 nn v l show ?thesis by auto
qed

text \<open>
  The witness: three not-a-number solves at 100 s, 103 s and 106 s log twice, at 100 s and
  at 106 s; and three solves of cost 25000 after an idle tick count to 3 and log nothing.
\<close>

theorem C4_divergence_diagnostics_witness:
  "cloudlog (projr (run cfg_ex planner_ex [tick_nan 100, tick_nan 103, tick_nan 106])) = [106, 100]
   \<and> five_seconds_apart
       (cloudlog (projr (run cfg_ex planner_ex [tick_nan 100, tick_nan 103, tick_nan 106])))
   \<and> 3 \<le> solution_invalid_cnt
       (projr (run cfg_ex planner_ex [tick_idle, tick_cost 100, tick_cost 101, tick_cost 102]))"
proof -
  have a: "run cfg_ex (LateralPlanner_init cfg_ex 1 (1 / 10)) [tick_nan 100, tick_nan 103, tick_nan 106]
     = Inr (projr (run cfg_ex planner_ex [tick_nan 100, tick_nan 103, tick_nan 106]))"
    by code_simp
  have b: "run cfg_ex (LateralPlanner_init cfg_ex 1 (1 / 10))
       ([tick_idle] @ [tick_cost 100, tick_cost 101, tick_cost 102])
     = Inr (projr (run cfg_ex planner_ex [tick_idle, tick_cost 100, tick_cost 101, tick_cost 102]))"
    by code_simp
  have c: "\<forall>tk \<in> {tick_cost 100, tick_cost 101, tick_cost 102}.
      mpc_cost (snd tk) = Num 25000 \<and> \<not> mpc_nans (snd tk)"
    by code_simp
  have l: "cloudlog (projr (run cfg_ex planner_ex [tick_nan 100, tick_nan 103, tick_nan 106]))
      = [106, 100]"
    by code_simp
  from C4_divergence_diagnostics [OF a b c] l show ?thesis by blast
qed

text \<open>
  The claim as stated fails on its own scenario: three consecutive ticks of cost 25000
  with finite samples bring the counter to 3 and emit no diagnostic, not exactly one.
\<close>

theorem C4_counterexample:
  "map_sum id solution_invalid_cnt
     (run cfg_ex planner_ex [tick_cost 100, tick_cost 101, tick_cost 102]) = Inr 3
   \<and> map_sum id (length \<circ> cloudlog)
       (run cfg_ex planner_ex [tick_cost 100, tick_cost 101, tick_cost 102]) = Inr 0"
  by code_simp

section \<open>The lane-change logic inside a tick\<close>

text \<open>
  A completed tick ran the lane-change logic on a planner with the lane-change fields of
  the tick's start, and ends with the lane-change fields that logic left.
\<close>

lemma update_Inr_lane:
  assumes "update cfg sm ext s = Inr s'"
  obtains s1 s2 where
    "lane_change cfg sm ext s1 = Inr s2"
    "lane_change_state s1 = lane_change_state s"
    "lane_change_direction s1 = lane_change_direction s"
    "lane_change_timer s1 = lane_change_timer s"
    "lane_change_ll_prob s1 = lane_change_ll_prob s"
    "prev_one_blinker s1 = prev_one_blinker s"
    "pre_lane_change_timer s1 = pre_lane_change_timer s"
    "lane_change_state s' = lane_change_state s2"
    "lane_change_direction s' = lane_change_direction s2"
    "lane_change_timer s' = lane_change_timer s2"
    "lane_change_ll_prob s' = lane_change_ll_prob s2"
    "prev_one_blinker s' = prev_one_blinker s2"
    "pre_lane_change_timer s' = pre_lane_change_timer s2"
proof -
  from assms obtain s0 measured s1 s2 s3 where
    t: "update_tuning sm ext s = Inr s0" and
    a: "accept_forecast cfg (modelV2 sm) (update_mpc_frame s0) = Inr s1" and
    l: "lane_change cfg sm ext s1 = Inr s2" and
    r: "resample_and_solve cfg ext s2 = Inr s3" and
    c: "s' = check_solution measured ext s3"
    by (auto elim: update_Inr_phases)
  have s3: "s3 = s2\<lparr>cur_state_curvature := interp_curvature ext\<rparr>"
    using resample_and_solve_frame(1) [OF r] .
  show thesis
  proof (rule that [OF l])
    show "lane_change_state s1 = lane_change_state s"
      "lane_change_direction s1 = lane_change_direction s"
      "lane_change_timer s1 = lane_change_timer s"
      "lane_change_ll_prob s1 = lane_change_ll_prob s"
      "prev_one_blinker s1 = prev_one_blinker s"
      "pre_lane_change_timer s1 = pre_lane_change_timer s"
      using update_tuning_lane [OF t] accept_forecast_lane [OF a] by simp_all
    show "lane_change_state s' = lane_change_state s2"
      "lane_change_direction s' = lane_change_direction s2"
      "lane_change_timer s' = lane_change_timer s2"
      "lane_change_ll_prob s' = lane_change_ll_prob s2"
      "prev_one_blinker s' = prev_one_blinker s2"
      "pre_lane_change_timer s' = pre_lane_change_timer s2"
      by (simp_all add: c s3)
  qed
qed

lemma timer_and_desire_timer [simp]:
  "lane_change_timer (timer_and_desire cfg ob s) =
     (if lane_change_state s = off \<or> lane_change_state s = preLaneChange then 0
      else lane_change_timer s + DT_MDL cfg)"
  by (simp add: timer_and_desire_def Let_def)

section \<open>The lane-change timer\<close>

lemma lane_change_timer_after:
  assumes "lane_change cfg sm ext s1 = Inr s2"
  shows "lane_change_timer s2 =
     (if lane_change_state s2 = off \<or> lane_change_state s2 = preLaneChange then 0
      else lane_change_timer s1 + DT_MDL cfg)"
proof (cases "\<not> active sm \<or> 10 < lane_change_timer s1")
  case True
  from assms lane_change_forced_off [OF True, of cfg ext] show ?thesis by auto
next
  case False
  with assms obtain s1' p where b: "blinker_step cfg (carState sm) s1 = Inr s1'"
    and s2: "s2 = timer_and_desire cfg (leftBlinker (carState sm) \<noteq> rightBlinker (carState sm))
            (state_transitions cfg ext
               (leftBlinker (carState sm) \<noteq> rightBlinker (carState sm))
               (vEgo (carState sm) < alc_min_speed cfg)
               (torque_applied none cfg (carState sm) p)
               (blindspot_detected (carState sm) s1') s1')"
    by (auto elim: lane_change_machine)
  show ?thesis unfolding s2 using blinker_step_frame(10) [OF b] by simp
qed

lemma lane_change_timer_exceeded:
  assumes "10 < lane_change_timer s1" and "lane_change cfg sm ext s1 = Inr s2"
  shows "lane_change_state s2 = off"
  using assms lane_change_forced_off [of sm s1 cfg ext] by auto

text \<open>
  Claim C5. The timer is written after the transitions of the tick (lines 226 to 229), so
  the state that decides is the one the tick ends in: the timer is 0 when that state is
  \<open>off\<close> or \<open>preLaneChange\<close>, and one tick period more than before when it is
  \<open>laneChangeStarting\<close> or \<open>laneChangeFinishing\<close>. A tick that starts with the timer
  above 10 ends in \<open>off\<close> whatever its inputs are, and its lane-change logic cannot raise.
\<close>

theorem C5_lane_change_timer:
  assumes "update cfg sm ext s = Inr s'"
  shows "(lane_change_state s' = off \<or> lane_change_state s' = preLaneChange
            \<longrightarrow> lane_change_timer s' = 0)
    \<and> (lane_change_state s' = laneChangeStarting \<or> lane_change_state s' = laneChangeFinishing
            \<longrightarrow> lane_change_timer s' = lane_change_timer s + DT_MDL cfg)
    \<and> (10 < lane_change_timer s
            \<longrightarrow> lane_change_state s' = off \<and> lane_change_timer s' = 0
                \<and> (\<exists>s2. lane_change cfg sm ext s = Inr s2 \<and> lane_change_state s2 = off))"
proof -
  from assms obtain s1 s2 where l: "lane_change cfg sm ext s1 = Inr s2"
    and i: "lane_change_timer s1 = lane_change_timer s"
    and o: "lane_change_state s' = lane_change_state s2" "lane_change_timer s' = lane_change_timer s2"
    by (auto elim: update_Inr_lane)
  have t: "lane_change_timer s2 =
     (if lane_change_state s2 = off \<or> lane_change_state s2 = preLaneChange then 0
      else lane_change_timer s1 + DT_MDL cfg)"
    using l by (rule lane_change_timer_after)
  have e: "10 < lane_change_timer s \<Longrightarrow> lane_change_state s2 = off"
    using lane_change_timer_exceeded [OF _ l] i by simp
  have f: "10 < lane_change_timer s \<Longrightarrow>
      \<exists>s2. lane_change cfg sm ext s = Inr s2 \<and> lane_change_state s2 = off"
    using lane_change_forced_off [of sm s cfg ext] by simp
  show ?thesis using t e f by (auto simp: o i)
qed

text \<open>
  The witness: a tick that stays in \<open>laneChangeStarting\<close> adds a twentieth of a second,
  and a tick that starts with the timer at 10.05 s ends in \<open>off\<close> with the timer at 0.
\<close>

theorem C5_lane_change_timer_witness:
  "lane_change_state
       (projr (update cfg_ex (fst tick_lines_seen) (snd tick_lines_seen) planner_starting_ex))
     = laneChangeStarting
   \<and> lane_change_timer
       (projr (update cfg_ex (fst tick_lines_seen) (snd tick_lines_seen) planner_starting_ex))
     = lane_change_timer planner_starting_ex + 1 / 20
   \<and> 10 < lane_change_timer planner_overtime_ex
   \<and> lane_change_state
       (projr (update cfg_ex (fst tick_lines_seen) (snd tick_lines_seen) planner_overtime_ex))
     = off
   \<and> lane_change_timer
       (projr (update cfg_ex (fst tick_lines_seen) (snd tick_lines_seen) planner_overtime_ex))
     = 0"
proof -
  have u1: "update cfg_ex (fst tick_lines_seen) (snd tick_lines_seen) planner_starting_ex
      = Inr (projr (update cfg_ex (fst tick_lines_seen) (snd tick_lines_seen) planner_starting_ex))"
    by code_simp
  have u2: "update cfg_ex (fst tick_lines_seen) (snd tick_lines_seen) planner_overtime_ex
      = Inr (projr (update cfg_ex (fst tick_lines_seen) (snd tick_lines_seen) planner_overtime_ex))"
    by code_simp
  have st: "lane_change_state
       (projr (update cfg_ex (fst tick_lines_seen) (snd tick_lines_seen) planner_starting_ex))
     = laneChangeStarting"
    by code_simp
  have gt: "10 < lane_change_timer planner_overtime_ex"
    by (simp add: planner_overtime_ex_def)
  have dt: "DT_MDL cfg_ex = 1 / 20"
    by (simp add: cfg_ex_def)
  from C5_lane_change_timer [OF u1] st dt
  have a: "lane_change_timer
       (projr (update cfg_ex (fst tick_lines_seen) (snd tick_lines_seen) planner_starting_ex))
     = lane_change_timer planner_starting_ex + 1 / 20"
    by simp
  from C5_lane_change_timer [OF u2] gt
  have b: "lane_change_state
       (projr (update cfg_ex (fst tick_lines_seen) (snd tick_lines_seen) planner_overtime_ex))
     = off
   \<and> lane_change_timer
       (projr (update cfg_ex (fst tick_lines_seen) (snd tick_lines_seen) planner_overtime_ex))
     = 0"
    by blast
  from st a gt b show ?thesis by blast
qed

section \<open>The transitions, state by state\<close>

lemma state_transitions_off:
  assumes "lane_change_state s = off"
  shows "state_transitions cfg ext ob bl tq bs s =
     (if ob \<and> \<not> prev_one_blinker s \<and> \<not> bl
      then s\<lparr>lane_change_state := preLaneChange, lane_change_ll_prob := 1\<rparr> else s)"
  using assms by (simp add: state_transitions_def Let_def)

lemma state_transitions_pre:
  assumes "lane_change_state s = preLaneChange"
  shows "state_transitions cfg ext ob bl tq bs s =
     (if \<not> ob \<or> bl then s\<lparr>lane_change_state := off\<rparr>
      else if tq \<and> \<not> bs then s\<lparr>lane_change_state := laneChangeStarting\<rparr> else s)"
  using assms by (simp add: state_transitions_def Let_def)

lemma state_transitions_starting:
  assumes "lane_change_state s = laneChangeStarting"
  shows "lane_change_ll_prob (state_transitions cfg ext ob bl tq bs s)
           = max (lane_change_ll_prob s - 2 * DT_MDL cfg) 0"
    and "lane_change_state (state_transitions cfg ext ob bl tq bs s) = laneChangeStarting
         \<or> lane_change_state (state_transitions cfg ext ob bl tq bs s) = laneChangeFinishing"
  using assms by (simp_all add: state_transitions_def Let_def)

lemma state_transitions_finishing:
  assumes "lane_change_state s = laneChangeFinishing"
  shows "lane_change_ll_prob (state_transitions cfg ext ob bl tq bs s)
           = min (lane_change_ll_prob s + DT_MDL cfg) 1"
    and "lane_change_state (state_transitions cfg ext ob bl tq bs s) = laneChangeFinishing
         \<or> (0.99 < lane_change_ll_prob (state_transitions cfg ext ob bl tq bs s)
            \<and> lane_change_state (state_transitions cfg ext ob bl tq bs s) = preLaneChange \<and> ob)
         \<or> (0.99 < lane_change_ll_prob (state_transitions cfg ext ob bl tq bs s)
            \<and> lane_change_state (state_transitions cfg ext ob bl tq bs s) = off)"
  using assms by (auto simp add: state_transitions_def Let_def min_def)

text \<open>The blend factor and the state after the lane-change logic, by the state before.\<close>

lemma lane_change_not_run:
  assumes "lane_change cfg sm ext s1 = Inr s2" and "\<not> active sm \<or> 10 < lane_change_timer s1"
  shows "lane_change_state s2 = off" and "lane_change_ll_prob s2 = lane_change_ll_prob s1"
    and "lane_change_direction s2 = lane_change_direction s1"
  using assms(1) lane_change_forced_off [OF assms(2), of cfg ext] by auto

lemma lane_change_run:
  assumes l: "lane_change cfg sm ext s1 = Inr s2"
    and m: "active sm" "\<not> 10 < lane_change_timer s1"
  shows "lane_change_direction s2 =
           (if leftBlinker (carState sm) then left else if rightBlinker (carState sm) then right
            else lane_change_direction s1)"
    and "lane_change_state s1 = off \<Longrightarrow>
           (lane_change_state s2 = preLaneChange \<and> lane_change_ll_prob s2 = 1
              \<and> leftBlinker (carState sm) \<noteq> rightBlinker (carState sm))
           \<or> (lane_change_state s2 = off \<and> lane_change_ll_prob s2 = lane_change_ll_prob s1)"
    and "lane_change_state s1 = preLaneChange \<Longrightarrow> lane_change_ll_prob s2 = lane_change_ll_prob s1"
    and "lane_change_state s1 = laneChangeStarting \<Longrightarrow>
           lane_change_ll_prob s2 = max (lane_change_ll_prob s1 - 2 * DT_MDL cfg) 0
           \<and> (lane_change_state s2 = laneChangeStarting \<or> lane_change_state s2 = laneChangeFinishing)"
    and "lane_change_state s1 = laneChangeFinishing \<Longrightarrow>
           lane_change_ll_prob s2 = min (lane_change_ll_prob s1 + DT_MDL cfg) 1
           \<and> (lane_change_state s2 = laneChangeFinishing
               \<or> (0.99 < lane_change_ll_prob s2
                   \<and> (lane_change_state s2 = preLaneChange \<or> lane_change_state s2 = off)))"
proof -
  from l m obtain s1' p where b: "blinker_step cfg (carState sm) s1 = Inr s1'"
    and s2: "s2 = timer_and_desire cfg (leftBlinker (carState sm) \<noteq> rightBlinker (carState sm))
            (state_transitions cfg ext
               (leftBlinker (carState sm) \<noteq> rightBlinker (carState sm))
               (vEgo (carState sm) < alc_min_speed cfg)
               (torque_applied none cfg (carState sm) p)
               (blindspot_detected (carState sm) s1') s1')"
    by (auto elim: lane_change_machine)
  note f = blinker_step_frame [OF b]
  show "lane_change_direction s2 =
           (if leftBlinker (carState sm) then left else if rightBlinker (carState sm) then right
            else lane_change_direction s1)"
    unfolding s2 using f(14) by simp
  show "(lane_change_state s2 = preLaneChange \<and> lane_change_ll_prob s2 = 1
              \<and> leftBlinker (carState sm) \<noteq> rightBlinker (carState sm))
           \<or> (lane_change_state s2 = off \<and> lane_change_ll_prob s2 = lane_change_ll_prob s1)"
    if "lane_change_state s1 = off"
    unfolding s2 using that f(9,11) by (simp add: state_transitions_off)
  show "lane_change_ll_prob s2 = lane_change_ll_prob s1" if "lane_change_state s1 = preLaneChange"
    unfolding s2 using that f(9,11) by (simp add: state_transitions_pre)
  show "lane_change_ll_prob s2 = max (lane_change_ll_prob s1 - 2 * DT_MDL cfg) 0
           \<and> (lane_change_state s2 = laneChangeStarting \<or> lane_change_state s2 = laneChangeFinishing)"
    if "lane_change_state s1 = laneChangeStarting"
    unfolding s2 using that f(9,11)
      state_transitions_starting [of s1' cfg ext
        "leftBlinker (carState sm) \<noteq> rightBlinker (carState sm)"
        "vEgo (carState sm) < alc_min_speed cfg" "torque_applied none cfg (carState sm) p"
        "blindspot_detected (carState sm) s1'"]
    by simp
  show "lane_change_ll_prob s2 = min (lane_change_ll_prob s1 + DT_MDL cfg) 1
           \<and> (lane_change_state s2 = laneChangeFinishing
               \<or> (0.99 < lane_change_ll_prob s2
                   \<and> (lane_change_state s2 = preLaneChange \<or> lane_change_state s2 = off)))"
    if "lane_change_state s1 = laneChangeFinishing"
    unfolding s2 using that f(9,11)
      state_transitions_finishing [of s1' cfg ext
        "leftBlinker (carState sm) \<noteq> rightBlinker (carState sm)"
        "vEgo (carState sm) < alc_min_speed cfg" "torque_applied none cfg (carState sm) p"
        "blindspot_detected (carState sm) s1'"]
    by auto
qed

section \<open>The lane-change direction\<close>

lemma lane_change_direction_kept:
  assumes l: "lane_change cfg sm ext s1 = Inr s2"
    and i: "lane_change_state s1 \<noteq> off \<longrightarrow> lane_change_direction s1 \<noteq> none"
  shows "lane_change_state s2 \<noteq> off \<longrightarrow> lane_change_direction s2 \<noteq> none"
proof (cases "active sm \<and> \<not> 10 < lane_change_timer s1")
  case False
  with lane_change_not_run(1) [OF l] show ?thesis by auto
next
  case True
  then have m: "active sm" "\<not> 10 < lane_change_timer s1" by simp_all
  note r = lane_change_run [OF l m]
  show ?thesis
  proof (cases "lane_change_state s1 = off")
    case True
    from r(2) [OF True] r(1) show ?thesis by auto
  next
    case False
    with i r(1) show ?thesis by auto
  qed
qed

lemma update_direction_kept:
  assumes "lane_change_state a \<noteq> off \<longrightarrow> lane_change_direction a \<noteq> none"
    and "update cfg sm ext a = Inr b"
  shows "lane_change_state b \<noteq> off \<longrightarrow> lane_change_direction b \<noteq> none"
proof -
  from assms(2) obtain s1 s2 where l: "lane_change cfg sm ext s1 = Inr s2"
    and i: "lane_change_state s1 = lane_change_state a"
      "lane_change_direction s1 = lane_change_direction a"
    and o: "lane_change_state b = lane_change_state s2"
      "lane_change_direction b = lane_change_direction s2"
    by (auto elim: update_Inr_lane)
  from lane_change_direction_kept [OF l] assms(1) show ?thesis by (simp add: i o)
qed

lemma update_direction:
  assumes "update cfg sm ext s = Inr s'"
  shows "lane_change_direction s' =
     (if active sm \<and> \<not> 10 < lane_change_timer s
      then if leftBlinker (carState sm) then left
           else if rightBlinker (carState sm) then right
           else lane_change_direction s
      else lane_change_direction s)"
proof -
  from assms obtain s1 s2 where l: "lane_change cfg sm ext s1 = Inr s2"
    and i: "lane_change_timer s1 = lane_change_timer s"
      "lane_change_direction s1 = lane_change_direction s"
    and o: "lane_change_direction s' = lane_change_direction s2"
    by (auto elim: update_Inr_lane)
  show ?thesis
  proof (cases "active sm \<and> \<not> 10 < lane_change_timer s1")
    case True
    then have m: "active sm" "\<not> 10 < lane_change_timer s1" by simp_all
    from lane_change_run(1) [OF l m] True show ?thesis by (simp add: i o)
  next
    case False
    then have "\<not> active sm \<or> 10 < lane_change_timer s1" by simp
    from lane_change_not_run(3) [OF l this] False show ?thesis by (auto simp: i o)
  qed
qed

text \<open>
  Claim C8, as amended. After every run of a freshly constructed planner a state other
  than \<open>off\<close> comes with the direction \<open>left\<close> or \<open>right\<close>. No tick resets the
  direction to \<open>none\<close>: a tick with the controller active, the timer not above 10 s and a
  blinker on sets it to that blinker's side (the left one first), and every other tick
  leaves it as it was. So a direction that is \<open>left\<close> or \<open>right\<close> stays so for good,
  also when the state returns to \<open>off\<close> from \<open>laneChangeFinishing\<close>.
\<close>

theorem C8_direction:
  assumes "run cfg (LateralPlanner_init cfg rc dl) tks = Inr s"
    and "update cfg sm ext s = Inr s'"
  shows "(lane_change_state s \<noteq> off
            \<longrightarrow> lane_change_direction s = left \<or> lane_change_direction s = right)
    \<and> lane_change_direction s' =
         (if active sm \<and> \<not> 10 < lane_change_timer s
          then if leftBlinker (carState sm) then left
               else if rightBlinker (carState sm) then right
               else lane_change_direction s
          else lane_change_direction s)
    \<and> (lane_change_direction s \<noteq> none \<longrightarrow> lane_change_direction s' \<noteq> none)"
proof -
  have "lane_change_state s \<noteq> off \<longrightarrow> lane_change_direction s \<noteq> none"
    using assms(1)
  proof (rule run_invariant)
    show "lane_change_state (LateralPlanner_init cfg rc dl) \<noteq> off
        \<longrightarrow> lane_change_direction (LateralPlanner_init cfg rc dl) \<noteq> none"
      by (simp add: LateralPlanner_init_def)
  qed (rule update_direction_kept)
  then have a: "lane_change_state s \<noteq> off
      \<longrightarrow> lane_change_direction s = left \<or> lane_change_direction s = right"
    by (cases "lane_change_direction s") simp_all
  note d = update_direction [OF assms(2)]
  from d have "lane_change_direction s \<noteq> none \<longrightarrow> lane_change_direction s' \<noteq> none"
    by (simp split: if_splits)
  with a d show ?thesis by blast
qed

text \<open>The run through a lane change, evaluated once.\<close>

lemma run_to_finishing_ex:
  "run cfg_ex (LateralPlanner_init cfg_ex 1 (1 / 10)) ticks_to_finishing_ex
     = Inr planner_finishing_ex"
  by code_simp

text \<open>
  The witness: the planner reached in \<open>laneChangeFinishing\<close> has the direction \<open>left\<close>,
  and the tick that takes it back to \<open>off\<close> leaves the direction \<open>left\<close>.
\<close>

theorem C8_direction_witness:
  "lane_change_state planner_finishing_ex = laneChangeFinishing
   \<and> lane_change_direction planner_finishing_ex = left
   \<and> lane_change_direction
       (projr (update cfg_ex (fst tick_no_blinker) (snd tick_no_blinker) planner_finishing_ex))
     = left"
proof -
  have u: "update cfg_ex (fst tick_no_blinker) (snd tick_no_blinker) planner_finishing_ex
      = Inr (projr (update cfg_ex (fst tick_no_blinker) (snd tick_no_blinker) planner_finishing_ex))"
    by code_simp
  have st: "lane_change_state planner_finishing_ex = laneChangeFinishing"
    and d: "lane_change_direction planner_finishing_ex = left"
    and nb: "\<not> leftBlinker (carState (fst tick_no_blinker))"
      "\<not> rightBlinker (carState (fst tick_no_blinker))"
    by code_simp+
  from C8_direction [OF run_to_finishing_ex u] d nb
  have "lane_change_direction
       (projr (update cfg_ex (fst tick_no_blinker) (snd tick_no_blinker) planner_finishing_ex))
     = left"
    by simp
  with st d show ?thesis by blast
qed

text \<open>
  The claim as stated fails where the state returns to \<open>off\<close> from
  \<open>laneChangeFinishing\<close>: at the end of the lane change above the planner is in
  \<open>laneChangeFinishing\<close>, the next tick takes it to \<open>off\<close>, and the direction is still
  \<open>left\<close>.
\<close>

theorem C8_counterexample:
  "map_sum id lane_change_state (run cfg_ex planner_ex ticks_to_finishing_ex)
     = Inr laneChangeFinishing
   \<and> map_sum id lane_change_state
       (run cfg_ex planner_ex (ticks_to_finishing_ex @ [tick_no_blinker])) = Inr off
   \<and> map_sum id lane_change_direction
       (run cfg_ex planner_ex (ticks_to_finishing_ex @ [tick_no_blinker])) = Inr left"
proof -
  have r: "run cfg_ex planner_ex ticks_to_finishing_ex = Inr planner_finishing_ex"
    using run_to_finishing_ex by (simp add: planner_ex_def)
  have st: "lane_change_state planner_finishing_ex = laneChangeFinishing"
    by code_simp
  have u: "map_sum id lane_change_state
        (update cfg_ex (fst tick_no_blinker) (snd tick_no_blinker) planner_finishing_ex) = Inr off"
    "map_sum id lane_change_direction
        (update cfg_ex (fst tick_no_blinker) (snd tick_no_blinker) planner_finishing_ex) = Inr left"
    by code_simp+
  have a: "run cfg_ex planner_ex (ticks_to_finishing_ex @ [tick_no_blinker])
      = update cfg_ex (fst tick_no_blinker) (snd tick_no_blinker) planner_finishing_ex"
    by (simp only: run_append r sum.case run_single)
  show ?thesis by (simp only: r a u st map_sum.simps id_apply)
qed

section \<open>The blend factor\<close>

text \<open>The blend factor and the state after a completed tick, by the state before.\<close>

lemma update_ll_not_run:
  assumes "update cfg sm ext s = Inr s'" and "\<not> active sm \<or> 10 < lane_change_timer s"
  shows "lane_change_state s' = off" and "lane_change_ll_prob s' = lane_change_ll_prob s"
proof -
  from assms(1) obtain s1 s2 where l: "lane_change cfg sm ext s1 = Inr s2"
    and i: "lane_change_timer s1 = lane_change_timer s"
      "lane_change_ll_prob s1 = lane_change_ll_prob s"
    and o: "lane_change_state s' = lane_change_state s2"
      "lane_change_ll_prob s' = lane_change_ll_prob s2"
    by (auto elim: update_Inr_lane)
  from assms(2) have n: "\<not> active sm \<or> 10 < lane_change_timer s1" by (simp add: i)
  from lane_change_not_run(1,2) [OF l n]
  show "lane_change_state s' = off" "lane_change_ll_prob s' = lane_change_ll_prob s"
    by (simp_all add: i o)
qed

lemma update_ll_run:
  assumes "update cfg sm ext s = Inr s'" and "active sm" and "\<not> 10 < lane_change_timer s"
  shows "lane_change_state s = off \<Longrightarrow>
           (lane_change_state s' = preLaneChange \<and> lane_change_ll_prob s' = 1)
           \<or> (lane_change_state s' = off \<and> lane_change_ll_prob s' = lane_change_ll_prob s)"
    and "lane_change_state s = preLaneChange \<Longrightarrow> lane_change_ll_prob s' = lane_change_ll_prob s"
    and "lane_change_state s = laneChangeStarting \<Longrightarrow>
           lane_change_ll_prob s' = max (lane_change_ll_prob s - 2 * DT_MDL cfg) 0
           \<and> (lane_change_state s' = laneChangeStarting \<or> lane_change_state s' = laneChangeFinishing)"
    and "lane_change_state s = laneChangeFinishing \<Longrightarrow>
           lane_change_ll_prob s' = min (lane_change_ll_prob s + DT_MDL cfg) 1
           \<and> (lane_change_state s' = laneChangeFinishing
               \<or> (0.99 < lane_change_ll_prob s'
                   \<and> (lane_change_state s' = preLaneChange \<or> lane_change_state s' = off)))"
proof -
  from assms(1) obtain s1 s2 where l: "lane_change cfg sm ext s1 = Inr s2"
    and i: "lane_change_timer s1 = lane_change_timer s"
      "lane_change_ll_prob s1 = lane_change_ll_prob s"
      "lane_change_state s1 = lane_change_state s"
    and o: "lane_change_state s' = lane_change_state s2"
      "lane_change_ll_prob s' = lane_change_ll_prob s2"
    by (auto elim: update_Inr_lane)
  from assms(3) have m: "\<not> 10 < lane_change_timer s1" by (simp add: i)
  note r = lane_change_run [OF l assms(2) m]
  show "(lane_change_state s' = preLaneChange \<and> lane_change_ll_prob s' = 1)
           \<or> (lane_change_state s' = off \<and> lane_change_ll_prob s' = lane_change_ll_prob s)"
    if "lane_change_state s = off"
    using r(2) that by (auto simp: i o)
  show "lane_change_ll_prob s' = lane_change_ll_prob s" if "lane_change_state s = preLaneChange"
    using r(3) that by (simp add: i o)
  show "lane_change_ll_prob s' = max (lane_change_ll_prob s - 2 * DT_MDL cfg) 0
           \<and> (lane_change_state s' = laneChangeStarting \<or> lane_change_state s' = laneChangeFinishing)"
    if "lane_change_state s = laneChangeStarting"
    using r(4) that by (simp add: i o)
  show "lane_change_ll_prob s' = min (lane_change_ll_prob s + DT_MDL cfg) 1
           \<and> (lane_change_state s' = laneChangeFinishing
               \<or> (0.99 < lane_change_ll_prob s'
                   \<and> (lane_change_state s' = preLaneChange \<or> lane_change_state s' = off)))"
    if "lane_change_state s = laneChangeFinishing"
  proof -
    from that have "lane_change_state s1 = laneChangeFinishing" by (simp add: i)
    from r(5) [OF this] show ?thesis unfolding i o by blast
  qed
qed

text \<open>The range: a tick keeps the blend factor between 0 and 1.\<close>

lemma update_ll_range:
  assumes dt: "0 \<le> DT_MDL cfg"
    and a: "0 \<le> lane_change_ll_prob a \<and> lane_change_ll_prob a \<le> 1"
    and u: "update cfg sm ext a = Inr b"
  shows "0 \<le> lane_change_ll_prob b \<and> lane_change_ll_prob b \<le> 1"
proof (cases "active sm \<and> \<not> 10 < lane_change_timer a")
  case False
  then have "\<not> active sm \<or> 10 < lane_change_timer a" by simp
  from update_ll_not_run(2) [OF u this] a show ?thesis by simp
next
  case True
  then have m: "active sm" "\<not> 10 < lane_change_timer a" by simp_all
  note r = update_ll_run [OF u m]
  show ?thesis
  proof (cases "lane_change_state a")
    case off
    from r(1) [OF off] a show ?thesis by auto
  next
    case preLaneChange
    from r(2) [OF preLaneChange] a show ?thesis by simp
  next
    case laneChangeStarting
    from r(3) [OF laneChangeStarting] a dt show ?thesis by simp
  next
    case laneChangeFinishing
    from r(4) [OF laneChangeFinishing] a dt show ?thesis by simp
  qed
qed

lemma run_ll_range:
  assumes "0 \<le> DT_MDL cfg" and "run cfg (LateralPlanner_init cfg rc dl) tks = Inr s"
  shows "0 \<le> lane_change_ll_prob s \<and> lane_change_ll_prob s \<le> 1"
  using assms(2)
proof (rule run_invariant)
  show "0 \<le> lane_change_ll_prob (LateralPlanner_init cfg rc dl)
      \<and> lane_change_ll_prob (LateralPlanner_init cfg rc dl) \<le> 1"
    by (simp add: LateralPlanner_init_def)
qed (rule update_ll_range [OF assms(1)])

text \<open>
  The grid: when the tick period divides 1, the blend factor is always a whole number of
  tick periods, at most 1.
\<close>

lemma grid_fade_out:
  assumes "0 \<le> (d::real)"
  shows "max (real k * d - 2 * d) 0 = real (k - 2) * d"
proof (cases "2 \<le> k")
  case True
  then have "real (k - 2) = real k - 2" by simp
  moreover have "0 \<le> real (k - 2) * d" using assms by simp
  ultimately show ?thesis by (simp add: algebra_simps)
next
  case False
  then have "real k \<le> 2" by simp
  then have "real k * d \<le> 2 * d" using assms by (rule mult_right_mono)
  with False show ?thesis by simp
qed

lemma grid_fade_in:
  assumes "0 \<le> (d::real)" and "real n * d = 1" and "k \<le> n"
  shows "min (real k * d + d) 1 = real (min (k + 1) n) * d"
proof (cases "k + 1 \<le> n")
  case True
  then have "real (k + 1) \<le> real n" by simp
  then have "real (k + 1) * d \<le> real n * d" using assms(1) by (rule mult_right_mono)
  then have "real k * d + d \<le> 1" using assms(2) by (simp add: algebra_simps)
  with True show ?thesis by (simp add: algebra_simps min_def)
next
  case False
  with assms(3) have "k = n" by simp
  with assms(1,2) show ?thesis by (simp add: min_def)
qed

lemma update_ll_grid:
  assumes g: "real n * DT_MDL cfg = 1" and dt: "0 \<le> DT_MDL cfg"
    and a: "\<exists>k\<le>n. lane_change_ll_prob a = real k * DT_MDL cfg"
    and u: "update cfg sm ext a = Inr b"
  shows "\<exists>k\<le>n. lane_change_ll_prob b = real k * DT_MDL cfg"
proof (cases "active sm \<and> \<not> 10 < lane_change_timer a")
  case False
  then have "\<not> active sm \<or> 10 < lane_change_timer a" by simp
  from update_ll_not_run(2) [OF u this] a show ?thesis by simp
next
  case True
  then have m: "active sm" "\<not> 10 < lane_change_timer a" by simp_all
  note r = update_ll_run [OF u m]
  from a obtain k where k: "k \<le> n" "lane_change_ll_prob a = real k * DT_MDL cfg" by blast
  have one: "\<exists>k\<le>n. (1::real) = real k * DT_MDL cfg" using g by auto
  show ?thesis
  proof (cases "lane_change_state a")
    case off
    from r(1) [OF off] a one show ?thesis by auto
  next
    case preLaneChange
    from r(2) [OF preLaneChange] a show ?thesis by simp
  next
    case laneChangeStarting
    from r(3) [OF laneChangeStarting] k
    have "lane_change_ll_prob b = real (k - 2) * DT_MDL cfg"
      by (simp add: grid_fade_out [OF dt])
    moreover have "k - 2 \<le> n" using k(1) by simp
    ultimately show ?thesis by blast
  next
    case laneChangeFinishing
    from r(4) [OF laneChangeFinishing] k
    have "lane_change_ll_prob b = real (min (k + 1) n) * DT_MDL cfg"
      by (simp add: grid_fade_in [OF dt g k(1)])
    moreover have "min (k + 1) n \<le> n" by simp
    ultimately show ?thesis by blast
  qed
qed

lemma run_ll_grid:
  assumes g: "real n * DT_MDL cfg = 1" and dt: "0 \<le> DT_MDL cfg"
    and r: "run cfg (LateralPlanner_init cfg rc dl) tks = Inr s"
  shows "\<exists>k\<le>n. lane_change_ll_prob s = real k * DT_MDL cfg"
  using r
proof (rule run_invariant)
  show "\<exists>k\<le>n. lane_change_ll_prob (LateralPlanner_init cfg rc dl) = real k * DT_MDL cfg"
    using g by (auto simp: LateralPlanner_init_def)
qed (rule update_ll_grid [OF g dt])

text \<open>On the grid, a blend factor above 0.99 is 1 when the tick period is above 0.01.\<close>

lemma grid_top:
  assumes g: "real n * (d::real) = 1" and d: "1 / 100 < d"
    and k: "k \<le> n" and x: "0.99 < real k * d"
  shows "real k * d = 1"
proof (rule ccontr)
  assume "real k * d \<noteq> 1"
  with g have "k \<noteq> n" by auto
  with k have "k + 1 \<le> n" by simp
  then have "real (k + 1) \<le> real n" by simp
  then have "real (k + 1) * d \<le> real n * d" using d by (intro mult_right_mono) simp_all
  then have "real k * d + d \<le> 1" using g by (simp add: algebra_simps)
  with d x show False by simp
qed

text \<open>
  Claim C6. After every run of a freshly constructed planner, and after one more tick, the
  blend factor is between 0 and 1. A tick that starts in \<open>laneChangeStarting\<close> does not
  raise it, and lowers it by two tick periods down to 0 unless the tick aborts the lane
  change (controller inactive or timer above 10 s); a tick that starts in
  \<open>laneChangeFinishing\<close> does not lower it, and raises it by one tick period up to 1
  unless the tick aborts. A tick that enters \<open>preLaneChange\<close> from \<open>off\<close> sets the
  factor to 1 (line 200). A tick that enters \<open>preLaneChange\<close> from
  \<open>laneChangeFinishing\<close> has raised it above 0.99, which is 1 as soon as the tick
  period divides 1 and exceeds 0.01, as the usual twentieth of a second does.
\<close>

theorem C6_blend_factor:
  assumes dt: "0 \<le> DT_MDL cfg"
    and r: "run cfg (LateralPlanner_init cfg rc dl) tks = Inr s"
    and u: "update cfg sm ext s = Inr s'"
  shows "0 \<le> lane_change_ll_prob s \<and> lane_change_ll_prob s \<le> 1
    \<and> 0 \<le> lane_change_ll_prob s' \<and> lane_change_ll_prob s' \<le> 1
    \<and> (lane_change_state s = laneChangeStarting
         \<longrightarrow> lane_change_ll_prob s' \<le> lane_change_ll_prob s
             \<and> (active sm \<and> \<not> 10 < lane_change_timer s
                  \<longrightarrow> lane_change_ll_prob s' = max (lane_change_ll_prob s - 2 * DT_MDL cfg) 0))
    \<and> (lane_change_state s = laneChangeFinishing
         \<longrightarrow> lane_change_ll_prob s \<le> lane_change_ll_prob s'
             \<and> (active sm \<and> \<not> 10 < lane_change_timer s
                  \<longrightarrow> lane_change_ll_prob s' = min (lane_change_ll_prob s + DT_MDL cfg) 1))
    \<and> (lane_change_state s = off \<and> lane_change_state s' = preLaneChange
         \<longrightarrow> lane_change_ll_prob s' = 1)
    \<and> ((\<exists>n::nat. real n * DT_MDL cfg = 1) \<and> 1 / 100 < DT_MDL cfg
         \<longrightarrow> lane_change_state s \<noteq> preLaneChange \<and> lane_change_state s' = preLaneChange
         \<longrightarrow> lane_change_ll_prob s' = 1)"
proof -
  have a: "0 \<le> lane_change_ll_prob s \<and> lane_change_ll_prob s \<le> 1"
    using dt r by (rule run_ll_range)
  have b: "0 \<le> lane_change_ll_prob s' \<and> lane_change_ll_prob s' \<le> 1"
    using dt a u by (rule update_ll_range)
  have st: "lane_change_ll_prob s' \<le> lane_change_ll_prob s
      \<and> (active sm \<and> \<not> 10 < lane_change_timer s
           \<longrightarrow> lane_change_ll_prob s' = max (lane_change_ll_prob s - 2 * DT_MDL cfg) 0)"
    if s: "lane_change_state s = laneChangeStarting"
  proof (cases "active sm \<and> \<not> 10 < lane_change_timer s")
    case False
    then have "\<not> active sm \<or> 10 < lane_change_timer s" by simp
    from update_ll_not_run(2) [OF u this] False show ?thesis by auto
  next
    case True
    then have m: "active sm" "\<not> 10 < lane_change_timer s" by simp_all
    from update_ll_run(3) [OF u m s] a dt show ?thesis by simp
  qed
  have fi: "lane_change_ll_prob s \<le> lane_change_ll_prob s'
      \<and> (active sm \<and> \<not> 10 < lane_change_timer s
           \<longrightarrow> lane_change_ll_prob s' = min (lane_change_ll_prob s + DT_MDL cfg) 1)"
    if s: "lane_change_state s = laneChangeFinishing"
  proof (cases "active sm \<and> \<not> 10 < lane_change_timer s")
    case False
    then have "\<not> active sm \<or> 10 < lane_change_timer s" by simp
    from update_ll_not_run(2) [OF u this] False show ?thesis by auto
  next
    case True
    then have m: "active sm" "\<not> 10 < lane_change_timer s" by simp_all
    from update_ll_run(4) [OF u m s] a dt show ?thesis by simp
  qed
  have en: "lane_change_ll_prob s' = 1"
    if s: "lane_change_state s = off" and s': "lane_change_state s' = preLaneChange"
  proof (cases "active sm \<and> \<not> 10 < lane_change_timer s")
    case False
    then have "\<not> active sm \<or> 10 < lane_change_timer s" by simp
    from update_ll_not_run(1) [OF u this] s' show ?thesis by simp
  next
    case True
    then have m: "active sm" "\<not> 10 < lane_change_timer s" by simp_all
    from update_ll_run(1) [OF u m s] s' show ?thesis by auto
  qed
  have ch: "lane_change_ll_prob s' = 1"
    if g: "real n * DT_MDL cfg = 1" and d: "1 / 100 < DT_MDL cfg"
      and s: "lane_change_state s \<noteq> preLaneChange" and s': "lane_change_state s' = preLaneChange"
    for n :: nat
  proof (cases "active sm \<and> \<not> 10 < lane_change_timer s")
    case False
    then have "\<not> active sm \<or> 10 < lane_change_timer s" by simp
    from update_ll_not_run(1) [OF u this] s' show ?thesis by simp
  next
    case True
    then have m: "active sm" "\<not> 10 < lane_change_timer s" by simp_all
    show ?thesis
    proof (cases "lane_change_state s")
      case off
      then show ?thesis using s' by (rule en)
    next
      case preLaneChange
      with s show ?thesis by simp
    next
      case laneChangeStarting
      from update_ll_run(3) [OF u m laneChangeStarting] s' show ?thesis by auto
    next
      case laneChangeFinishing
      from update_ll_run(4) [OF u m laneChangeFinishing]
      have "lane_change_state s' = laneChangeFinishing \<or> 0.99 < lane_change_ll_prob s'"
        by blast
      with s' have top: "0.99 < lane_change_ll_prob s'" by simp
      have "\<exists>k\<le>n. lane_change_ll_prob s = real k * DT_MDL cfg"
        using g dt r by (rule run_ll_grid)
      then have "\<exists>k\<le>n. lane_change_ll_prob s' = real k * DT_MDL cfg"
        using u by (rule update_ll_grid [OF g dt])
      then obtain k where k: "k \<le> n" "lane_change_ll_prob s' = real k * DT_MDL cfg"
        by blast
      from top have "0.99 < real k * DT_MDL cfg" by (simp only: k(2))
      with g d k(1) have "real k * DT_MDL cfg = 1" by (rule grid_top)
      then show ?thesis by (simp only: k(2))
    qed
  qed
  from a b st fi en ch show ?thesis by blast
qed

text \<open>
  The witness: with a tick of a twentieth of a second, the first full tick in
  \<open>laneChangeStarting\<close> lowers the factor from 1 to 0.9, and the chained lane change
  that re-enters \<open>preLaneChange\<close> from \<open>laneChangeFinishing\<close> at 0.95 does so with the
  factor at 1.
\<close>

theorem C6_blend_factor_witness:
  "lane_change_state planner_starting_ex = laneChangeStarting
   \<and> lane_change_ll_prob planner_starting_ex = 1
   \<and> lane_change_ll_prob
       (projr (update cfg_ex (fst tick_lines_seen) (snd tick_lines_seen) planner_starting_ex))
     = 9 / 10
   \<and> lane_change_state planner_finishing_ex = laneChangeFinishing
   \<and> lane_change_state
       (projr (update cfg_ex (fst tick_left_blinker) (snd tick_left_blinker) planner_finishing_ex))
     = preLaneChange
   \<and> lane_change_ll_prob
       (projr (update cfg_ex (fst tick_left_blinker) (snd tick_left_blinker) planner_finishing_ex))
     = 1"
proof -
  have dt: "0 \<le> DT_MDL cfg_ex" and dv: "DT_MDL cfg_ex = 1 / 20"
    by (simp_all add: cfg_ex_def)
  have grid: "(\<exists>n::nat. real n * DT_MDL cfg_ex = 1) \<and> 1 / 100 < DT_MDL cfg_ex"
  proof
    have "real 20 * DT_MDL cfg_ex = 1" by (simp add: dv)
    then show "\<exists>n::nat. real n * DT_MDL cfg_ex = 1" by (rule exI)
    show "1 / 100 < DT_MDL cfg_ex" by (simp add: dv)
  qed
  have r1: "run cfg_ex (LateralPlanner_init cfg_ex 1 (1 / 10))
        [tick_idle, tick_left_blinker, tick_left_torque (- 2)] = Inr planner_starting_ex"
    by code_simp
  have u1: "update cfg_ex (fst tick_lines_seen) (snd tick_lines_seen) planner_starting_ex
      = Inr (projr (update cfg_ex (fst tick_lines_seen) (snd tick_lines_seen) planner_starting_ex))"
    by code_simp
  have s1: "lane_change_state planner_starting_ex = laneChangeStarting"
    and l1: "lane_change_ll_prob planner_starting_ex = 1"
    and a1: "active (fst tick_lines_seen)"
    and t1: "\<not> 10 < lane_change_timer planner_starting_ex"
    by code_simp+
  from C6_blend_factor [OF dt r1 u1] s1 a1 t1
  have "lane_change_ll_prob
       (projr (update cfg_ex (fst tick_lines_seen) (snd tick_lines_seen) planner_starting_ex))
     = max (lane_change_ll_prob planner_starting_ex - 2 * DT_MDL cfg_ex) 0"
    by blast
  then have x: "lane_change_ll_prob
       (projr (update cfg_ex (fst tick_lines_seen) (snd tick_lines_seen) planner_starting_ex))
     = 9 / 10"
    by (simp add: l1 dv)
  have u2: "update cfg_ex (fst tick_left_blinker) (snd tick_left_blinker) planner_finishing_ex
      = Inr (projr (update cfg_ex (fst tick_left_blinker) (snd tick_left_blinker)
                      planner_finishing_ex))"
    by code_simp
  have s2: "lane_change_state planner_finishing_ex = laneChangeFinishing"
    and s2': "lane_change_state
       (projr (update cfg_ex (fst tick_left_blinker) (snd tick_left_blinker) planner_finishing_ex))
     = preLaneChange"
    by code_simp+
  from s2 have n2: "lane_change_state planner_finishing_ex \<noteq> preLaneChange" by simp
  from C6_blend_factor [OF dt run_to_finishing_ex u2] grid n2 s2'
  have y: "lane_change_ll_prob
       (projr (update cfg_ex (fst tick_left_blinker) (snd tick_left_blinker) planner_finishing_ex))
     = 1"
    by blast
  from s1 l1 x s2 s2' y show ?thesis by blast
qed

section \<open>A forecast of unexpected length\<close>

text \<open>What a completed tick leaves behind for the next one.\<close>

lemma update_Inr_ready:
  assumes "update cfg sm ext s = Inr s'"
  shows "pre_lane_change_timer s' \<noteq> None"
    and "path_xyz s' \<noteq> []"
    and "length (path_xyz s') = length (plan_yaw s')"
    and "length (take (MPC_N cfg + 1) (t_idxs s')) = MPC_N cfg + 1"
proof -
  from assms obtain measured s1 s2 s3 where
    l: "lane_change cfg sm ext s1 = Inr s2" and
    r: "resample_and_solve cfg ext s2 = Inr s3" and
    c: "s' = check_solution measured ext s3"
    by (auto elim: update_Inr_phases)
  note f = resample_and_solve_frame [OF r]
  show "pre_lane_change_timer s' \<noteq> None"
    using lane_change_frame(9) [OF l] by (simp add: c f(1))
  show "path_xyz s' \<noteq> []" using f(2) by (simp add: c f(1))
  show "length (path_xyz s') = length (plan_yaw s')" using f(3) by (simp add: c f(1))
  show "length (take (MPC_N cfg + 1) (t_idxs s')) = MPC_N cfg + 1"
    using f(4) by (simp add: c f(1))
qed

lemma update_tuning_completes:
  assumes "divisors_nonzero s ext"
  shows "\<exists>s0. update_tuning sm ext s = Inr s0"
  using assms
  by (auto simp: update_tuning_def py_div_def divisors_nonzero_def Let_def)

lemma lane_change_completes:
  assumes "pre_lane_change_timer s \<noteq> None"
  shows "\<exists>s2. lane_change cfg sm ext s = Inr s2"
proof -
  from assms obtain p where p: "pre_lane_change_timer s = Some p" by auto
  then have "\<exists>s1. blinker_step cfg (carState sm) s = Inr s1"
    by (simp add: blinker_step_def)
  then obtain s1 where b: "blinker_step cfg (carState sm) s = Inr s1" by blast
  with blinker_step_frame(13) [OF b] obtain q where "pre_lane_change_timer s1 = Some q"
    by auto
  with b show ?thesis
    by (simp add: lane_change_def Let_def)
qed

lemma accept_forecast_mismatch:
  assumes "length (xyzt_x (position md)) \<noteq> TRAJECTORY_SIZE cfg
         \<or> length (xyzt_x (orientation md)) \<noteq> TRAJECTORY_SIZE cfg"
  shows "accept_forecast cfg md s = Inr s"
  using assms by (auto simp: accept_forecast_def)

text \<open>
  Claim C7. A forecast whose position or orientation sequence has not the expected length
  is not stored: the acceptance step returns the planner as it is. The tick that follows a
  completed tick then completes as well, provided the collaborators hand back no zero
  divisor, and ends with the path, the time indices and the yaw forecast of the previous
  tick.
\<close>

theorem C7_forecast_retained:
  assumes prev: "update cfg sm0 ext0 s0 = Inr s"
    and mismatch: "length (xyzt_x (position (modelV2 sm))) \<noteq> TRAJECTORY_SIZE cfg
                 \<or> length (xyzt_x (orientation (modelV2 sm))) \<noteq> TRAJECTORY_SIZE cfg"
    and div: "divisors_nonzero s ext"
  shows "accept_forecast cfg (modelV2 sm) s = Inr s
    \<and> (\<exists>s'. update cfg sm ext s = Inr s'
          \<and> path_xyz s' = path_xyz s \<and> t_idxs s' = t_idxs s \<and> plan_yaw s' = plan_yaw s)"
proof -
  note ready = update_Inr_ready [OF prev]
  obtain s0' where t: "update_tuning sm ext s = Inr s0'"
    using update_tuning_completes [OF div] by blast
  note tf = update_tuning_lane [OF t]
  from div obtain measured where mc: "measured_curvature sm ext = Inr measured"
    by (auto simp: measured_curvature_def py_div_def divisors_nonzero_def)
  have a: "accept_forecast cfg (modelV2 sm) (update_mpc_frame s0') = Inr (update_mpc_frame s0')"
    using mismatch by (rule accept_forecast_mismatch)
  have "pre_lane_change_timer (update_mpc_frame s0') \<noteq> None"
    using ready(1) tf(6) by simp
  then obtain s2 where l: "lane_change cfg sm ext (update_mpc_frame s0') = Inr s2"
    using lane_change_completes by blast
  note lf = lane_change_frame [OF l]
  have p2: "path_xyz s2 = path_xyz s" "t_idxs s2 = t_idxs s" "plan_yaw s2 = plan_yaw s"
    using lf(1,2,3) tf(7,8,9) by simp_all
  have r: "resample_and_solve cfg ext s2 = Inr (s2\<lparr>cur_state_curvature := interp_curvature ext\<rparr>)"
    using ready(2,3,4) by (simp add: resample_and_solve_def Let_def p2)
  have "max (vEgo (carState sm)) 0.1 \<noteq> 0"
    by (simp add: max_def)
  with div have c: "command_extraction sm ext = Inr ()"
    by (simp add: command_extraction_def divisors_nonzero_def Let_def)
  have u: "update cfg sm ext s
      = Inr (check_solution measured ext (s2\<lparr>cur_state_curvature := interp_curvature ext\<rparr>))"
    by (simp add: update_def t mc a l r c)
  have "accept_forecast cfg (modelV2 sm) s = Inr s"
    using mismatch by (rule accept_forecast_mismatch)
  with u p2 show ?thesis by simp
qed

theorem C7_forecast_retained_witness:
  "length (xyzt_x (position (modelV2 (fst tick_short_forecast)))) = 20
   \<and> TRAJECTORY_SIZE cfg_ex = 33
   \<and> (\<exists>s'. update cfg_ex (fst tick_short_forecast) (snd tick_short_forecast) planner_idle_ex
             = Inr s'
          \<and> path_xyz s' = path_xyz planner_idle_ex \<and> t_idxs s' = t_idxs planner_idle_ex
          \<and> plan_yaw s' = plan_yaw planner_idle_ex)"
proof -
  have p: "update cfg_ex (fst tick_idle) (snd tick_idle) planner_ex = Inr planner_idle_ex"
    by code_simp
  have n: "length (xyzt_x (position (modelV2 (fst tick_short_forecast)))) = 20"
    and t: "TRAJECTORY_SIZE cfg_ex = 33"
    by code_simp+
  from n t have m: "length (xyzt_x (position (modelV2 (fst tick_short_forecast))))
        \<noteq> TRAJECTORY_SIZE cfg_ex
      \<or> length (xyzt_x (orientation (modelV2 (fst tick_short_forecast))))
        \<noteq> TRAJECTORY_SIZE cfg_ex"
    by simp
  have d: "divisors_nonzero planner_idle_ex (snd tick_short_forecast)"
    by code_simp
  from C7_forecast_retained [OF p m d] n t show ?thesis by blast
qed

section \<open>The torque nudge, in general\<close>

text \<open>
  In general: with nudge-less mode off, a tick that starts in \<open>preLaneChange\<close> and runs
  the state machine starts the lane change exactly when one blinker is on, the speed is
  sufficient, the steering is pressed with negative torque and there is no blind spot on
  the blinker's side. The direction of the lane change does not enter the torque test.
\<close>

lemma pre_lane_change_transition:
  assumes u: "update cfg sm ext s = Inr s'"
    and p: "lane_change_state s = preLaneChange"
    and m: "active sm" "\<not> 10 < lane_change_timer s"
    and n: "\<not> alc_nudge_less cfg"
  shows "(lane_change_state s' = laneChangeStarting) =
     (leftBlinker (carState sm) \<noteq> rightBlinker (carState sm)
      \<and> \<not> vEgo (carState sm) < alc_min_speed cfg
      \<and> steeringTorque (carState sm) < 0 \<and> steeringPressed (carState sm)
      \<and> \<not> (if leftBlinker (carState sm) then leftBlindspot (carState sm)
            else rightBlindspot (carState sm)))"
proof -
  from u obtain s1 s2 where l: "lane_change cfg sm ext s1 = Inr s2"
    and i: "lane_change_state s1 = lane_change_state s"
      "lane_change_timer s1 = lane_change_timer s"
    and o: "lane_change_state s' = lane_change_state s2"
    by (auto elim: update_Inr_lane)
  from m i have m1: "\<not> 10 < lane_change_timer s1" by simp
  from l m(1) m1 obtain s1' q where b: "blinker_step cfg (carState sm) s1 = Inr s1'"
    and s2: "s2 = timer_and_desire cfg (leftBlinker (carState sm) \<noteq> rightBlinker (carState sm))
            (state_transitions cfg ext
               (leftBlinker (carState sm) \<noteq> rightBlinker (carState sm))
               (vEgo (carState sm) < alc_min_speed cfg)
               (torque_applied none cfg (carState sm) q)
               (blindspot_detected (carState sm) s1') s1')"
    by (auto elim: lane_change_machine)
  note f = blinker_step_frame [OF b]
  have st: "lane_change_state s1' = preLaneChange" using f(9) i p by simp
  have tq: "torque_applied none cfg (carState sm) q
      = (steeringTorque (carState sm) < 0 \<and> steeringPressed (carState sm))"
    using n by (simp add: torque_applied_def)
  have bs: "leftBlinker (carState sm) \<noteq> rightBlinker (carState sm) \<Longrightarrow>
      blindspot_detected (carState sm) s1'
      = (if leftBlinker (carState sm) then leftBlindspot (carState sm)
         else rightBlindspot (carState sm))"
    using f(14) by (auto simp: blindspot_detected_def)
  show ?thesis
    unfolding o s2 using bs st by (auto simp: state_transitions_pre [OF st] tq)
qed

end
